theory Spec2Isabelle
  imports Main
begin

section \<open>The scraper engine of niece-finder (src/scraper\_engine.py)\<close>

text \<open>
  The engine fetches pages (with a browser or with a plain HTTP request), retries failed
  fetches, parses the markup with an HTML library and turns matched containers into
  records. Everything outside the repository (the network, the browser, the HTML library,
  the clock) is a parameter of the model: the record \<open>world\<close>. Exceptions are values of
  the type \<open>error\<close>, and a computation that may raise returns \<open>error + 'a\<close>.
  Two things the source does are left out: the choice of a user agent (a random element
  of a list that is never empty; it never raises and no branch depends on it) and the
  log lines other than those kept in the trace of a run.
\<close>

subsection \<open>Exceptions\<close>

datatype error =
    IndexError          \<comment> \<open>list index out of range\<close>
  | ValueError          \<comment> \<open>\<open>time.sleep\<close> of a negative length, a pool of no workers\<close>
  | RequestException    \<comment> \<open>\<open>requests.get\<close> raised (connection error, timeout)\<close>
  | HTTPError           \<comment> \<open>\<open>raise_for_status\<close> on a 4xx or 5xx reply\<close>
  | BrowserError        \<comment> \<open>the browser session raised\<close>
  | EOFError            \<comment> \<open>\<open>input()\<close> raised during the operator hand-off\<close>
  | ParserError         \<comment> \<open>a call into the HTML library raised\<close>

definition and_then :: "error + 'a \<Rightarrow> ('a \<Rightarrow> error + 'b) \<Rightarrow> error + 'b" where
  "and_then m f = (case m of Inl e \<Rightarrow> Inl e | Inr x \<Rightarrow> f x)"

subsection \<open>Strings\<close>

text \<open>
  Strings are byte strings here; \<open>lower\<close> and \<open>strip\<close> act on the ASCII range (Python's
  act on Unicode code points).
\<close>

definition lower_char :: "char \<Rightarrow> char" where
  "lower_char c =
     (let n = (of_char c :: nat) in if 65 \<le> n \<and> n \<le> 90 then char_of (n + 32) else c)"

definition lower :: "string \<Rightarrow> string" where
  "lower s = map lower_char s"

fun starts_with :: "string \<Rightarrow> string \<Rightarrow> bool" where
  "starts_with [] s = True"
| "starts_with (p # ps) [] = False"
| "starts_with (p # ps) (c # cs) = (p = c \<and> starts_with ps cs)"

text \<open>\<open>contains sub s\<close> is Python's \<open>sub in s\<close>.\<close>

fun contains :: "string \<Rightarrow> string \<Rightarrow> bool" where
  "contains sub [] = (sub = [])"
| "contains sub (c # cs) = (starts_with sub (c # cs) \<or> contains sub cs)"

definition is_space :: "char \<Rightarrow> bool" where
  "is_space c = ((of_char c :: nat) \<in> {9, 10, 11, 12, 13, 28, 29, 30, 31, 32})"

text \<open>\<open>s.strip()\<close>, \<open>s.lstrip(chars)\<close> and \<open>s.replace(a, b)\<close> for single characters.\<close>

definition strip :: "string \<Rightarrow> string" where
  "strip s = rev (dropWhile is_space (rev (dropWhile is_space s)))"

definition lstrip :: "string \<Rightarrow> string \<Rightarrow> string" where
  "lstrip chars s = dropWhile (\<lambda>c. c \<in> set chars) s"

definition replace_char :: "char \<Rightarrow> char \<Rightarrow> string \<Rightarrow> string" where
  "replace_char a b s = map (\<lambda>c. if c = a then b else c) s"

text \<open>
  \<open>s.split(sep)\<close> for a one-character separator: the pieces between the separators, a
  list that is never empty. \<open>split_acc\<close> carries the piece being read.
\<close>

fun split_acc :: "char \<Rightarrow> string \<Rightarrow> string \<Rightarrow> string list" where
  "split_acc sep cur [] = [cur]"
| "split_acc sep cur (c # cs) =
     (if c = sep then cur # split_acc sep [] cs else split_acc sep (cur @ [c]) cs)"

definition split :: "char \<Rightarrow> string \<Rightarrow> string list" where
  "split sep s = split_acc sep [] s"

text \<open>The words "the substring after the last separator", to compare with \<open>split\<close>.\<close>

definition after_last :: "char \<Rightarrow> string \<Rightarrow> string" where
  "after_last sep s = rev (takeWhile (\<lambda>c. c \<noteq> sep) (rev s))"

subsection \<open>ProxyManager\<close>

text \<open>
  A provider is a dict; only its \<open>url\<close> entry is read, with \<open>proxy.get('url')\<close>, so a
  provider is the value of that entry, \<open>None\<close> when the dict has none.
\<close>

record proxy_manager =
  enabled :: bool
  rotation :: bool
  proxies :: "string option list"
  current_index :: nat

definition ProxyManager :: "bool \<Rightarrow> bool \<Rightarrow> string option list \<Rightarrow> proxy_manager" where
  "ProxyManager en rot providers =
     \<lparr>enabled = en, rotation = rot, proxies = providers, current_index = 0\<rparr>"

text \<open>
  \<open>get_proxy\<close> returns the proxy and the manager with its cursor moved. Reading
  \<open>self.proxies[self.current_index]\<close> outside the list raises.
\<close>

definition get_proxy :: "proxy_manager \<Rightarrow> (error + string option) \<times> proxy_manager" where
  "get_proxy pm =
     (if \<not> enabled pm \<or> proxies pm = [] then (Inr None, pm)
      else if rotation pm then
        (if current_index pm < length (proxies pm)
         then (Inr (proxies pm ! current_index pm),
               pm\<lparr>current_index := (current_index pm + 1) mod length (proxies pm)\<rparr>)
         else (Inl IndexError, pm))
      else (Inr (proxies pm ! 0), pm))"

text \<open>\<open>k\<close> successive calls of \<open>get_proxy\<close>: what each returned, and the manager after.\<close>

fun get_proxy_times :: "nat \<Rightarrow> proxy_manager \<Rightarrow> (error + string option) list \<times> proxy_manager" where
  "get_proxy_times 0 pm = ([], pm)"
| "get_proxy_times (Suc k) pm =
     (case get_proxy pm of (r, pm1) \<Rightarrow>
        (case get_proxy_times k pm1 of (rs, pm2) \<Rightarrow> (r # rs, pm2)))"

subsection \<open>The world outside the engine\<close>

text \<open>
  The network answers the \<open>t\<close>-th fetch of a run (\<open>t\<close> is the field \<open>tick\<close> of the
  state): \<open>requests.get\<close> raises or returns a status code and a body; the browser session
  raises or renders a page and, should the operator hand-off be called, either shows the
  page left by the operator (\<open>Some\<close>) or \<open>input()\<close> raises (\<open>None\<close>).
  The HTML library works on nodes: \<open>make_soup\<close> is \<open>BeautifulSoup(html, 'html.parser')\<close>,
  \<open>select\<close> is \<open>node.select(css)\<close>, \<open>find_next\<close> is \<open>node.find_next(name)\<close>,
  \<open>node_text\<close> is \<open>node.text\<close>; each of them returns or raises. \<open>attrs\<close> is the
  attribute dict of a node.
\<close>

type_synonym node = nat

datatype http_reply = ConnectionFailed | Response nat string

datatype browser_reply = SessionFailed | Rendered string "string option"

record world =
  http_get :: "nat \<Rightarrow> string \<Rightarrow> http_reply"
  browse :: "nat \<Rightarrow> string \<Rightarrow> browser_reply"
  make_soup :: "string \<Rightarrow> error + node"
  select :: "node \<Rightarrow> string \<Rightarrow> error + node list"
  find_next :: "node \<Rightarrow> string \<Rightarrow> error + node option"
  node_text :: "node \<Rightarrow> error + string"
  attrs :: "node \<Rightarrow> string \<Rightarrow> string option"

text \<open>What a run does to the outside, in order: the field \<open>trace\<close> of the state.\<close>

datatype event =
    Fetch bool string "string option"  \<comment> \<open>a fetch: with the browser or not, the url, the proxy\<close>
  | Handoff                            \<comment> \<open>\<open>_handle_captcha\<close>: the operator is asked to act\<close>
  | Switch string                      \<comment> \<open>"Switching to browser mode", for the url\<close>
  | AttemptFailed nat                  \<comment> \<open>"Attempt k/max\_retries failed"\<close>
  | Sleep int                          \<comment> \<open>\<open>time.sleep(seconds)\<close>\<close>
  | GaveUp string                      \<comment> \<open>"Failed to retrieve url after max\_retries attempts"\<close>

subsection \<open>Configuration and state of the engine\<close>

text \<open>
  An entry of the platform list is a dict; a field is \<open>None\<close> when the dict has no such
  key.
\<close>

record platform_config =
  pc_name :: "string option"
  pc_enabled :: "bool option"
  pc_base_url :: "string option"
  pc_tags :: "string list option"
  pc_categories :: "string list option"
  pc_subreddits :: "string list option"
  pc_search_queries :: "string list option"

record engine =
  max_retries :: int
  timeout :: int
  delay :: int
  platforms_config :: "platform_config list"

record state =
  proxy_manager :: proxy_manager
  tick :: nat
  trace :: "event list"

text \<open>\<open>time.sleep\<close> raises on a negative length.\<close>

definition sleep :: "int \<Rightarrow> state \<Rightarrow> (error + unit) \<times> state" where
  "sleep seconds st =
     (if seconds < 0 then (Inl ValueError, st)
      else (Inr (), st\<lparr>trace := trace st @ [Sleep seconds]\<rparr>))"

subsection \<open>CAPTCHA detection and hand-off\<close>

definition captcha_indicators :: "string list" where
  "captcha_indicators =
     [''captcha'', ''robot'', ''human verification'', ''security check'',
      ''prove you'' @ [CHR 0x27] @ ''re human'']"

definition check_for_captcha :: "string \<Rightarrow> bool" where
  "check_for_captcha html_content =
     (let html_lower = lower html_content
      in list_ex (\<lambda>indicator. contains indicator html_lower) captcha_indicators)"

text \<open>
  \<open>_handle_captcha(driver)\<close>: the argument is what the session holds once the operator
  has pressed Enter, if \<open>input()\<close> returns at all.
\<close>

definition handle_captcha :: "string option \<Rightarrow> state \<Rightarrow> (error + string) \<times> state" where
  "handle_captcha resolved st =
     (let st1 = st\<lparr>trace := trace st @ [Handoff]\<rparr>
      in case resolved of
           None \<Rightarrow> (Inl EOFError, st1)
         | Some page_source \<Rightarrow> (Inr page_source, st1))"

subsection \<open>Fetching with retries\<close>

text \<open>The body of the \<open>try\<close> in browser mode: the content returned, or the exception.\<close>

definition browser_fetch :: "world \<Rightarrow> string \<Rightarrow> state \<Rightarrow> (error + string) \<times> state" where
  "browser_fetch w url st =
     (case get_proxy (proxy_manager st) of
        (Inl e, pm) \<Rightarrow> (Inl e, st\<lparr>proxy_manager := pm\<rparr>)
      | (Inr proxy, pm) \<Rightarrow>
          (let st1 = st\<lparr>proxy_manager := pm, tick := Suc (tick st),
                         trace := trace st @ [Fetch True url proxy]\<rparr>
           in case browse w (tick st) url of
                SessionFailed \<Rightarrow> (Inl BrowserError, st1)
              | Rendered page_source resolved \<Rightarrow>
                  if check_for_captcha page_source then handle_captcha resolved st1
                  else (Inr page_source, st1)))"

text \<open>
  The request of the direct mode, up to \<open>raise_for_status\<close>, which raises on the status
  codes 400 to 599: the body of the reply, or the exception. The request goes through
  the proxy only when \<open>proxy\<close> is true as a condition: neither \<open>None\<close> nor the empty
  string.
\<close>

definition direct_fetch :: "world \<Rightarrow> string \<Rightarrow> state \<Rightarrow> (error + string) \<times> state" where
  "direct_fetch w url st =
     (case get_proxy (proxy_manager st) of
        (Inl e, pm) \<Rightarrow> (Inl e, st\<lparr>proxy_manager := pm\<rparr>)
      | (Inr proxy, pm) \<Rightarrow>
          (let proxies_used = (if proxy = None \<or> proxy = Some [] then None else proxy);
               st1 = st\<lparr>proxy_manager := pm, tick := Suc (tick st),
                         trace := trace st @ [Fetch False url proxies_used]\<rparr>
           in case http_get w (tick st) url of
                ConnectionFailed \<Rightarrow> (Inl RequestException, st1)
              | Response status body \<Rightarrow>
                  if 400 \<le> status \<and> status < 600 then (Inl HTTPError, st1)
                  else (Inr body, st1)))"

text \<open>
  The loop \<open>for attempt in range(self.max_retries)\<close> of \<open>_make_request_with_retry\<close>, on
  the attempts still to run. The call of the direct mode into the browser mode is inside
  the \<open>try\<close>, so an exception it raises is handled like any other. A loop that runs out
  of attempts falls off the end of the function, which returns \<open>None\<close>.
\<close>

function make_request_loop ::
  "engine \<Rightarrow> world \<Rightarrow> string \<Rightarrow> bool \<Rightarrow> nat list \<Rightarrow> state \<Rightarrow> (error + string option) \<times> state" where
  "make_request_loop eng w url use_browser [] st = (Inr None, st)"
| "make_request_loop eng w url use_browser (attempt # rest) st =
     (case (if use_browser then
              (case browser_fetch w url st of
                 (Inl e, st1) \<Rightarrow> (Inl e, st1)
               | (Inr content, st1) \<Rightarrow> (Inr (Some content), st1))
            else
              (case direct_fetch w url st of
                 (Inl e, st1) \<Rightarrow> (Inl e, st1)
               | (Inr body, st1) \<Rightarrow>
                   if check_for_captcha body then
                     make_request_loop eng w url True [0..<nat (max_retries eng)]
                       (st1\<lparr>trace := trace st1 @ [Switch url]\<rparr>)
                   else (Inr (Some body), st1)))
      of
        (Inr content, st2) \<Rightarrow> (Inr content, st2)
      | (Inl e, st2) \<Rightarrow>
          (let st3 = st2\<lparr>trace := trace st2 @ [AttemptFailed (attempt + 1)]\<rparr>
           in if int attempt < max_retries eng - 1 then
                (case sleep (delay eng * (int attempt + 1)) st3 of
                   (Inl e', st4) \<Rightarrow> (Inl e', st4)
                 | (Inr u, st4) \<Rightarrow> make_request_loop eng w url use_browser rest st4)
              else (Inr None, st3\<lparr>trace := trace st3 @ [GaveUp url]\<rparr>)))"
  by pat_completeness auto
termination
  by (relation "measures [\<lambda>(eng, w, url, use_browser, attempts, st). if use_browser then 0 else 1,
                          \<lambda>(eng, w, url, use_browser, attempts, st). length attempts]")
     auto

definition make_request_with_retry ::
  "engine \<Rightarrow> world \<Rightarrow> string \<Rightarrow> bool \<Rightarrow> state \<Rightarrow> (error + string option) \<times> state" where
  "make_request_with_retry eng w url use_browser st =
     make_request_loop eng w url use_browser [0..<nat (max_retries eng)] st"

subsection \<open>Selectors and records\<close>

text \<open>
  The table \<open>PLATFORM_SELECTORS\<close>. Python raises \<open>KeyError\<close> on a missing key; every
  lookup of the source names a platform and a key of the table.
\<close>

definition PLATFORM_SELECTORS :: \<open>(string \<times> (string \<times> string) list) list\<close> where
  \<open>PLATFORM_SELECTORS =
     [(''tiktok'',
        [(''hashtags'', ''.hashtag''),
         (''views'', ''.video-count''),
         (''fallback_hashtags'', ''a[href*="/tag/"]'')]),
      (''amazon'',
        [(''products'', ''[data-zg-item]''),
         (''product_name'', ''.p13n-sc-truncated''),
         (''price'', ''.p13n-sc-price''),
         (''rating'', ''.a-icon-alt''),
         (''fallback_products'', ''.zg-item'')]),
      (''reddit'',
        [(''posts'', ''[data-testid="post-container"]''),
         (''title'', ''[data-testid="post-title"]''),
         (''upvotes'', ''[data-testid="upvote-count"]''),
         (''comments'', ''[data-testid="comment-count"]''),
         (''fallback_posts'', ''.Post'')]),
      (''youtube'',
        [(''videos'', ''ytd-video-renderer,ytd-grid-video-renderer''),
         (''title'', ''#video-title''),
         (''views'', ''#metadata-line span:first-child''),
         (''date'', ''#metadata-line span:last-child''),
         (''fallback_videos'', ''.yt-simple-endpoint.ytd-video-renderer'')])]\<close>

definition selector :: "string \<Rightarrow> string \<Rightarrow> string" where
  "selector platform key =
     (case map_of PLATFORM_SELECTORS platform of
        None \<Rightarrow> []
      | Some table \<Rightarrow> (case map_of table key of None \<Rightarrow> [] | Some css \<Rightarrow> css))"

text \<open>
  A record of the output is a dict from field names to strings, or to \<open>None\<close> for the
  \<open>video_id\<close> of a video: an association list, in the order the source writes the keys.
\<close>

datatype pyval = Str string | PyNone

type_synonym item = "(string \<times> pyval) list"

text \<open>\<open>node.select_one(css)\<close>: the first match of \<open>select\<close>, or \<open>None\<close>.\<close>

definition select_one :: "world \<Rightarrow> node \<Rightarrow> string \<Rightarrow> error + node option" where
  "select_one w n css =
     and_then (select w n css) (\<lambda>found. Inr (case found of [] \<Rightarrow> None | m # _ \<Rightarrow> Some m))"

text \<open>The expression \<open>element.text.strip() if element else dflt\<close>.\<close>

definition text_or :: "world \<Rightarrow> node option \<Rightarrow> string \<Rightarrow> error + string" where
  "text_or w element dflt =
     (case element of
        None \<Rightarrow> Inr dflt
      | Some el \<Rightarrow> and_then (node_text w el) (\<lambda>t. Inr (strip t)))"

text \<open>
  The two lines every scraper has: the primary selector, and the fallback selector when
  the primary one matched nothing.
\<close>

definition containers :: "world \<Rightarrow> node \<Rightarrow> string \<Rightarrow> string \<Rightarrow> error + node list" where
  "containers w soup primary fallback =
     and_then (select w soup primary)
       (\<lambda>found. if found = [] then select w soup fallback else Inr found)"

text \<open>
  The loop over the containers every scraper has: the body of the \<open>try\<close> is \<open>parse\<close>;
  a container whose parse raises is logged and adds nothing to \<open>data\<close>.
\<close>

fun collect :: "(node \<Rightarrow> error + item) \<Rightarrow> node list \<Rightarrow> item list \<Rightarrow> item list" where
  "collect parse [] data = data"
| "collect parse (c # cs) data =
     (case parse c of
        Inr r \<Rightarrow> collect parse cs (data @ [r])
      | Inl e \<Rightarrow> collect parse cs data)"

subsection \<open>The body of the \<open>try\<close> of each scraper\<close>

definition tiktok_item :: "world \<Rightarrow> string \<Rightarrow> node \<Rightarrow> error + item" where
  "tiktok_item w base_url tag =
     and_then (node_text w tag) (\<lambda>t.
     let tag_name = lstrip ''#'' (strip t) in
     and_then (find_next w tag (selector ''tiktok'' ''views'')) (\<lambda>view_element.
     and_then (text_or w view_element ''N/A'') (\<lambda>views.
     Inr [(''platform'', Str ''tiktok''),
          (''type'', Str ''hashtag''),
          (''name'', Str tag_name),
          (''views'', Str views),
          (''url'', Str (base_url @ tag_name))])))"

definition amazon_item :: "world \<Rightarrow> string \<Rightarrow> node \<Rightarrow> error + item" where
  "amazon_item w category product =
     and_then (select_one w product (selector ''amazon'' ''product_name'')) (\<lambda>name_element.
     and_then (select_one w product (selector ''amazon'' ''price'')) (\<lambda>price_element.
     and_then (select_one w product (selector ''amazon'' ''rating'')) (\<lambda>rating_element.
     and_then (text_or w name_element ''N/A'') (\<lambda>name.
     and_then (text_or w price_element ''N/A'') (\<lambda>price.
     and_then (text_or w rating_element ''N/A'') (\<lambda>rating.
     Inr [(''platform'', Str ''amazon''),
          (''type'', Str ''product''),
          (''category'', Str category),
          (''name'', Str name),
          (''price'', Str price),
          (''rating'', Str rating)]))))))"

definition reddit_item :: "world \<Rightarrow> string \<Rightarrow> node \<Rightarrow> error + item" where
  "reddit_item w subreddit post =
     and_then (select_one w post (selector ''reddit'' ''title'')) (\<lambda>title_element.
     and_then (select_one w post (selector ''reddit'' ''upvotes'')) (\<lambda>upvotes_element.
     and_then (select_one w post (selector ''reddit'' ''comments'')) (\<lambda>comments_element.
     and_then (text_or w title_element ''N/A'') (\<lambda>title.
     and_then (text_or w upvotes_element ''0'') (\<lambda>upvotes.
     and_then (text_or w comments_element ''0'') (\<lambda>comments.
     Inr [(''platform'', Str ''reddit''),
          (''type'', Str ''post''),
          (''subreddit'', Str subreddit),
          (''title'', Str title),
          (''upvotes'', Str upvotes),
          (''comments'', Str comments)]))))))"

text \<open>
  \<open>video_id\<close> is \<open>None\<close>, or the last piece of the \<open>href\<close> split at \<open>=\<close>; the test
  \<open>if video_id\<close> of the \<open>url\<close> field is false for \<open>None\<close> and for the empty string.
\<close>

definition youtube_item :: "world \<Rightarrow> string \<Rightarrow> node \<Rightarrow> error + item" where
  "youtube_item w query video =
     and_then (select_one w video (selector ''youtube'' ''title'')) (\<lambda>title_element.
     and_then (select_one w video (selector ''youtube'' ''views'')) (\<lambda>views_element.
     and_then (select_one w video (selector ''youtube'' ''date'')) (\<lambda>date_element.
     and_then (text_or w title_element ''N/A'') (\<lambda>title.
     and_then (text_or w views_element ''N/A'') (\<lambda>views.
     and_then (text_or w date_element ''N/A'') (\<lambda>date.
     let video_id =
           (case title_element of
              None \<Rightarrow> None
            | Some el \<Rightarrow>
                (case attrs w el ''href'' of
                   None \<Rightarrow> None
                 | Some href \<Rightarrow> Some (last (split (CHR ''='') href))))
     in
     Inr [(''platform'', Str ''youtube''),
          (''type'', Str ''video''),
          (''query'', Str query),
          (''title'', Str title),
          (''views'', Str views),
          (''date'', Str date),
          (''video_id'', (case video_id of None \<Rightarrow> PyNone | Some v \<Rightarrow> Str v)),
          (''url'', Str (case video_id of
                           None \<Rightarrow> ''N/A''
                         | Some v \<Rightarrow>
                             if v = [] then ''N/A''
                             else ''https://www.youtube.com/watch?v='' @ v))]))))))"

subsection \<open>The scrapers\<close>

text \<open>
  \<open>next((p for p in self.platforms_config if p.get('name') == platform), {})\<close> followed
  by \<open>.get('base_url', dflt)\<close>.
\<close>

definition platform_base_url :: "engine \<Rightarrow> string \<Rightarrow> string \<Rightarrow> string" where
  "platform_base_url eng platform dflt =
     (case find (\<lambda>p. pc_name p = Some platform) (platforms_config eng) of
        None \<Rightarrow> dflt
      | Some platform_config \<Rightarrow>
          (case pc_base_url platform_config of None \<Rightarrow> dflt | Some b \<Rightarrow> b))"

text \<open>
  What a scraper does with the outcome of the fetch: \<open>[]\<close> when \<open>not html_content\<close>
  (\<open>None\<close> or the empty string), else the document is parsed, the containers are
  selected (at most \<open>limit\<close> of them are kept when a limit is given) and the loop runs.
  An exception of the parse or of the container selectors is outside every \<open>try\<close> of
  the scraper.
\<close>

definition extract_items ::
  "world \<Rightarrow> string \<Rightarrow> string \<Rightarrow> nat option \<Rightarrow> (node \<Rightarrow> error + item) \<Rightarrow> string option
    \<Rightarrow> error + item list" where
  "extract_items w primary fallback limit parse html_content =
     (case html_content of
        None \<Rightarrow> Inr []
      | Some html \<Rightarrow>
          if html = [] then Inr []
          else
            and_then (make_soup w html) (\<lambda>soup.
            and_then (containers w soup primary fallback) (\<lambda>found.
            Inr (collect parse (case limit of None \<Rightarrow> found | Some n \<Rightarrow> take n found) []))))"

definition scrape_tiktok_hashtags ::
  "engine \<Rightarrow> world \<Rightarrow> string \<Rightarrow> state \<Rightarrow> (error + item list) \<times> state" where
  "scrape_tiktok_hashtags eng w tag st =
     (let base_url = platform_base_url eng ''tiktok'' ''https://www.tiktok.com/tag/'';
          url = base_url @ tag
      in case make_request_with_retry eng w url True st of
           (Inl e, st1) \<Rightarrow> (Inl e, st1)
         | (Inr html_content, st1) \<Rightarrow>
             (extract_items w (selector ''tiktok'' ''hashtags'') (selector ''tiktok'' ''fallback_hashtags'')
                None (tiktok_item w base_url) html_content, st1))"

definition scrape_amazon_bestsellers ::
  "engine \<Rightarrow> world \<Rightarrow> string \<Rightarrow> state \<Rightarrow> (error + item list) \<times> state" where
  "scrape_amazon_bestsellers eng w category st =
     (let base_url = platform_base_url eng ''amazon'' ''https://www.amazon.com/best-sellers/'';
          url = base_url @ category
      in case make_request_with_retry eng w url True st of
           (Inl e, st1) \<Rightarrow> (Inl e, st1)
         | (Inr html_content, st1) \<Rightarrow>
             (extract_items w (selector ''amazon'' ''products'') (selector ''amazon'' ''fallback_products'')
                None (amazon_item w category) html_content, st1))"

definition scrape_reddit_posts ::
  "engine \<Rightarrow> world \<Rightarrow> string \<Rightarrow> state \<Rightarrow> (error + item list) \<times> state" where
  "scrape_reddit_posts eng w subreddit st =
     (let base_url = platform_base_url eng ''reddit'' ''https://www.reddit.com/r/'';
          url = base_url @ subreddit
      in case make_request_with_retry eng w url True st of
           (Inl e, st1) \<Rightarrow> (Inl e, st1)
         | (Inr html_content, st1) \<Rightarrow>
             (extract_items w (selector ''reddit'' ''posts'') (selector ''reddit'' ''fallback_posts'')
                None (reddit_item w subreddit) html_content, st1))"

definition scrape_youtube_videos ::
  "engine \<Rightarrow> world \<Rightarrow> string \<Rightarrow> state \<Rightarrow> (error + item list) \<times> state" where
  "scrape_youtube_videos eng w query st =
     (let query_formatted = replace_char (CHR '' '') (CHR ''+'') query;
          url = ''https://www.youtube.com/results?search_query='' @ query_formatted
      in case make_request_with_retry eng w url True st of
           (Inl e, st1) \<Rightarrow> (Inl e, st1)
         | (Inr html_content, st1) \<Rightarrow>
             (extract_items w (selector ''youtube'' ''videos'') (selector ''youtube'' ''fallback_videos'')
                (Some 10) (youtube_item w query) html_content, st1))"

subsection \<open>The batch\<close>

text \<open>The tasks one enabled platform contributes, with the defaults of the source.\<close>

definition tasks_of :: "platform_config \<Rightarrow> (string \<times> string) list" where
  "tasks_of platform =
     (let platform_name = pc_name platform
      in if platform_name = Some ''tiktok'' then
           map (Pair ''tiktok'')
             (case pc_tags platform of None \<Rightarrow> [''affiliatemarketing''] | Some tags \<Rightarrow> tags)
         else if platform_name = Some ''amazon'' then
           map (Pair ''amazon'')
             (case pc_categories platform of None \<Rightarrow> [''electronics''] | Some cs \<Rightarrow> cs)
         else if platform_name = Some ''reddit'' then
           map (Pair ''reddit'')
             (case pc_subreddits platform of None \<Rightarrow> [''affiliatemarketing''] | Some rs \<Rightarrow> rs)
         else if platform_name = Some ''youtube'' then
           map (Pair ''youtube'')
             (case pc_search_queries platform of None \<Rightarrow> [''affiliate marketing''] | Some qs \<Rightarrow> qs)
         else [])"

text \<open>
  \<open>executor.submit\<close> of the scraper chosen by the platform name; \<open>None\<close> is the branch
  \<open>continue\<close>. A future holds what the scraper returned or the exception it raised.
  The tasks run here one after the other, in the order of submission: the schedule of a
  pool of one worker. The pause of one second follows each submission.
\<close>

definition submit ::
  "engine \<Rightarrow> world \<Rightarrow> string \<Rightarrow> string \<Rightarrow> state \<Rightarrow> ((error + item list) \<times> state) option" where
  "submit eng w platform param st =
     (if platform = ''tiktok'' then Some (scrape_tiktok_hashtags eng w param st)
      else if platform = ''amazon'' then Some (scrape_amazon_bestsellers eng w param st)
      else if platform = ''reddit'' then Some (scrape_reddit_posts eng w param st)
      else if platform = ''youtube'' then Some (scrape_youtube_videos eng w param st)
      else None)"

fun submit_all ::
  "engine \<Rightarrow> world \<Rightarrow> (string \<times> string) list \<Rightarrow> state \<Rightarrow> (error + item list) list \<times> state" where
  "submit_all eng w [] st = ([], st)"
| "submit_all eng w ((platform, param) # tasks) st =
     (case submit eng w platform param st of
        None \<Rightarrow> submit_all eng w tasks st
      | Some (future, st1) \<Rightarrow>
          (case submit_all eng w tasks (snd (sleep 1 st1)) of
             (futures, st2) \<Rightarrow> (future # futures, st2)))"

text \<open>The loop over the futures: \<open>future.result()\<close> returns the records or raises.\<close>

fun collect_results :: "(error + item list) list \<Rightarrow> item list \<Rightarrow> item list" where
  "collect_results [] all_data = all_data"
| "collect_results (future # futures) all_data =
     (case future of
        Inr result \<Rightarrow> collect_results futures (all_data @ result)
      | Inl e \<Rightarrow> collect_results futures all_data)"

text \<open>
  \<open>ThreadPoolExecutor(max_workers=n)\<close> raises \<open>ValueError\<close> when \<open>n \<le> 0\<close>; the
  constructor is called outside every \<open>try\<close>.
\<close>

definition scrape_all_platforms ::
  "engine \<Rightarrow> world \<Rightarrow> int \<Rightarrow> state \<Rightarrow> (error + item list) \<times> state" where
  "scrape_all_platforms eng w max_workers st =
     (let enabled_platforms = filter (\<lambda>p. pc_enabled p \<noteq> Some False) (platforms_config eng);
          scraping_tasks = concat (map tasks_of enabled_platforms)
      in if min max_workers (int (length scraping_tasks)) \<le> 0 then (Inl ValueError, st)
         else
           (case submit_all eng w scraping_tasks st of
              (futures, st1) \<Rightarrow> (Inr (collect_results futures []), st1)))"

text \<open>
  \<open>ScraperEngine()\<close>: the engine and its first state, from the values of the
  configuration, each \<open>None\<close> when its key is missing.
\<close>

definition ScraperEngine ::
  "int option \<Rightarrow> int option \<Rightarrow> int option \<Rightarrow> platform_config list option \<Rightarrow> engine" where
  "ScraperEngine retries tmo dly platforms =
     \<lparr>max_retries = (case retries of None \<Rightarrow> 3 | Some n \<Rightarrow> n),
      timeout = (case tmo of None \<Rightarrow> 30 | Some n \<Rightarrow> n),
      delay = (case dly of None \<Rightarrow> 2 | Some n \<Rightarrow> n),
      platforms_config = (case platforms of None \<Rightarrow> [] | Some ps \<Rightarrow> ps)\<rparr>"

definition initial_state :: "proxy_manager \<Rightarrow> state" where
  "initial_state pm = \<lparr>proxy_manager = pm, tick = 0, trace = []\<rparr>"

subsection \<open>Observations of a run\<close>

text \<open>The body of the \<open>try\<close> up to the CAPTCHA check of the direct mode.\<close>

definition fetch_once :: "world \<Rightarrow> string \<Rightarrow> bool \<Rightarrow> state \<Rightarrow> (error + string) \<times> state" where
  "fetch_once w url use_browser st =
     (if use_browser then browser_fetch w url st else direct_fetch w url st)"

text \<open>The cursor of a manager points into its endpoint list, as after construction.\<close>

definition cursor_ok :: "proxy_manager \<Rightarrow> bool" where
  "cursor_ok pm = (proxies pm = [] \<or> current_index pm < length (proxies pm))"

text \<open>
  The fetch the world answers at tick \<open>t\<close> fails: the session or the request raises, the
  status is an error status, or the hand-off of a challenge page raises.
\<close>

definition fetch_fails :: "world \<Rightarrow> string \<Rightarrow> bool \<Rightarrow> nat \<Rightarrow> bool" where
  "fetch_fails w url use_browser t =
     (if use_browser then
        (case browse w t url of
           SessionFailed \<Rightarrow> True
         | Rendered page_source resolved \<Rightarrow> check_for_captcha page_source \<and> resolved = None)
      else
        (case http_get w t url of
           ConnectionFailed \<Rightarrow> True
         | Response status body \<Rightarrow> 400 \<le> status \<and> status < 600))"

text \<open>The outline of a trace forgets the proxies and the hand-offs.\<close>

fun outline_event :: "event \<Rightarrow> event list" where
  "outline_event (Fetch b u p) = [Fetch b u None]"
| "outline_event Handoff = []"
| "outline_event e = [e]"

definition outline :: "event list \<Rightarrow> event list" where
  "outline tr = concat (map outline_event tr)"

fun is_fetch :: "event \<Rightarrow> bool" where
  "is_fetch (Fetch b u p) = True"
| "is_fetch e = False"

text \<open>What one failed attempt number \<open>k\<close> leaves in the outline.\<close>

definition failed_attempt :: "engine \<Rightarrow> string \<Rightarrow> bool \<Rightarrow> nat \<Rightarrow> event list" where
  "failed_attempt eng url use_browser k =
     [Fetch use_browser url None, AttemptFailed k] @
     (if int k < max_retries eng then [Sleep (delay eng * int k)] else [GaveUp url])"

text \<open>The urls of the switches to browser mode, and the mode and url of the fetches.\<close>

fun switch_of :: "event \<Rightarrow> string list" where
  "switch_of (Switch u) = [u]"
| "switch_of e = []"

definition switches :: "event list \<Rightarrow> string list" where
  "switches tr = concat (map switch_of tr)"

fun fetch_of :: "event \<Rightarrow> (bool \<times> string) list" where
  "fetch_of (Fetch b u p) = [(b, u)]"
| "fetch_of e = []"

definition fetches :: "event list \<Rightarrow> (bool \<times> string) list" where
  "fetches tr = concat (map fetch_of tr)"

text \<open>The tasks of a batch: those of the enabled platforms, in the order of the list.\<close>

definition scraping_tasks :: "engine \<Rightarrow> (string \<times> string) list" where
  "scraping_tasks eng =
     concat (map tasks_of (filter (\<lambda>p. pc_enabled p \<noteq> Some False) (platforms_config eng)))"

text \<open>The records of the containers that parse, in the order of the containers.\<close>

definition successes :: "(node \<Rightarrow> error + item) \<Rightarrow> node list \<Rightarrow> item list" where
  "successes parse cs = concat (map (\<lambda>c. case parse c of Inr r \<Rightarrow> [r] | Inl e \<Rightarrow> []) cs)"

subsection \<open>Worlds to run the engine in\<close>

text \<open>A world where every fetch fails.\<close>

definition dead_world :: world where
  "dead_world =
     \<lparr>http_get = (\<lambda>t url. ConnectionFailed),
      browse = (\<lambda>t url. SessionFailed),
      make_soup = (\<lambda>html. Inl ParserError),
      select = (\<lambda>n css. Inr []),
      find_next = (\<lambda>n nm. Inr None),
      node_text = (\<lambda>n. Inr []),
      attrs = (\<lambda>n k. None)\<rparr>"

text \<open>A world whose plain replies are challenge pages and whose browser shows a page.\<close>

definition challenge_world :: world where
  "challenge_world =
     \<lparr>http_get = (\<lambda>t url. Response 200 ''Please Complete CAPTCHA''),
      browse = (\<lambda>t url. Rendered ''<html>fine</html>'' None),
      make_soup = (\<lambda>html. Inl ParserError),
      select = (\<lambda>n css. Inr []),
      find_next = (\<lambda>n nm. Inr None),
      node_text = (\<lambda>n. Inr []),
      attrs = (\<lambda>n k. None)\<rparr>"

text \<open>
  Worlds whose browser always shows the same plain page, parsed to the node \<open>0\<close>, over
  a given HTML library.
\<close>

definition page_world ::
  "(node \<Rightarrow> string \<Rightarrow> error + node list) \<Rightarrow> (node \<Rightarrow> error + string)
     \<Rightarrow> (node \<Rightarrow> string \<Rightarrow> string option) \<Rightarrow> world" where
  "page_world sel txt at =
     \<lparr>http_get = (\<lambda>t url. Response 200 ''<html>page</html>''),
      browse = (\<lambda>t url. Rendered ''<html>page</html>'' None),
      make_soup = (\<lambda>html. Inr 0),
      select = sel,
      find_next = (\<lambda>n nm. Inr None),
      node_text = txt,
      attrs = at\<rparr>"

text \<open>
  A document where only the fallback selectors match (one container), and a document of
  fifty containers.
\<close>

definition fallback_world :: world where
  "fallback_world =
     page_world
       (\<lambda>n css. if n = 0 \<and> css \<in> {selector ''tiktok'' ''fallback_hashtags'',
                                     selector ''amazon'' ''fallback_products'',
                                     selector ''reddit'' ''fallback_posts'',
                                     selector ''youtube'' ''fallback_videos''}
                 then Inr [1] else Inr [])
       (\<lambda>n. Inr '' page '')
       (\<lambda>n k. None)"

definition crowded_world :: world where
  "crowded_world =
     page_world (\<lambda>n css. if n = 0 then Inr [1..<51] else Inr []) (\<lambda>n. Inr '' page '')
       (\<lambda>n k. None)"

text \<open>
  A document of one video container (node \<open>1\<close>) whose title element (node \<open>2\<close>) has the
  given \<open>href\<close>.
\<close>

definition video_world :: "string \<Rightarrow> world" where
  "video_world href =
     page_world
       (\<lambda>n css. if n = 0 then Inr [1]
                 else if n = 1 \<and> css = selector ''youtube'' ''title'' then Inr [2]
                 else Inr [])
       (\<lambda>n. Inr '' A video '')
       (\<lambda>n k. if n = 2 \<and> k = ''href'' then Some href else None)"

text \<open>
  A document of three containers (nodes \<open>1\<close>, \<open>2\<close>, \<open>3\<close>) where every call of the
  library on the second one raises.
\<close>

definition faulty_world :: world where
  "faulty_world =
     page_world
       (\<lambda>n css. if n = 0 then Inr [1, 2, 3] else if n = 2 then Inl ParserError else Inr [])
       (\<lambda>n. if n = 2 then Inl ParserError else Inr ''#deal '')
       (\<lambda>n k. None)"

section \<open>Properties\<close>

subsection \<open>ProxyManager\<close>

lemma get_proxy_rotating:
  assumes "enabled pm" "rotation pm" "current_index pm < length (proxies pm)"
  shows "get_proxy pm =
    (Inr (proxies pm ! current_index pm),
     pm\<lparr>current_index := (current_index pm + 1) mod length (proxies pm)\<rparr>)"
  using assms by (cases "proxies pm") (auto simp: get_proxy_def)

lemma get_proxy_times_rotating:
  assumes "enabled pm" "rotation pm" "current_index pm < length (proxies pm)"
  shows "get_proxy_times k pm =
    (map (\<lambda>i. Inr (proxies pm ! ((current_index pm + i) mod length (proxies pm)))) [0..<k],
     pm\<lparr>current_index := (current_index pm + k) mod length (proxies pm)\<rparr>)"
  using assms
proof (induction k arbitrary: pm)
  case 0
  then show ?case by simp
next
  case (Suc k)
  let ?n = "length (proxies pm)"
  let ?pm1 = "pm\<lparr>current_index := Suc (current_index pm) mod ?n\<rparr>"
  have pos: "0 < ?n" using Suc.prems by (cases "proxies pm") auto
  have step: "get_proxy pm = (Inr (proxies pm ! current_index pm), ?pm1)"
    using get_proxy_rotating [OF Suc.prems] by simp
  have "get_proxy_times k ?pm1 =
      (map (\<lambda>i. Inr (proxies ?pm1 ! ((current_index ?pm1 + i) mod length (proxies ?pm1)))) [0..<k],
       ?pm1\<lparr>current_index := (current_index ?pm1 + k) mod length (proxies ?pm1)\<rparr>)"
    using Suc.prems pos by (intro Suc.IH) simp_all
  then have ih: "get_proxy_times k ?pm1 =
      (map (\<lambda>i. Inr (proxies pm ! ((current_index pm + Suc i) mod ?n))) [0..<k],
       pm\<lparr>current_index := (current_index pm + Suc k) mod ?n\<rparr>)"
    by (simp add: mod_Suc_eq mod_add_left_eq)
  have lst: "[0..<Suc k] = 0 # map Suc [0..<k]"
    by (simp add: upt_conv_Cons map_Suc_upt del: upt_Suc)
  have "get_proxy_times (Suc k) pm =
      (Inr (proxies pm ! current_index pm)
         # map (\<lambda>i. Inr (proxies pm ! ((current_index pm + Suc i) mod ?n))) [0..<k],
       pm\<lparr>current_index := (current_index pm + Suc k) mod ?n\<rparr>)"
    by (simp only: get_proxy_times.simps step ih prod.case)
  also have "Inr (proxies pm ! current_index pm)
         # map (\<lambda>i. Inr (proxies pm ! ((current_index pm + Suc i) mod ?n))) [0..<k]
       = map (\<lambda>i. Inr (proxies pm ! ((current_index pm + i) mod ?n))) [0..<Suc k]"
    using Suc.prems(3) by (simp only: lst list.map map_map comp_def) simp
  finally show ?case .
qed

lemma get_proxy_times_sticky:
  assumes "enabled pm" "\<not> rotation pm" "proxies pm \<noteq> []"
  shows "get_proxy_times k pm = (replicate k (Inr (proxies pm ! 0)), pm)"
proof (induction k)
  case 0
  then show ?case by simp
next
  case (Suc k)
  have "get_proxy pm = (Inr (proxies pm ! 0), pm)"
    using assms by (simp add: get_proxy_def)
  then show ?case using Suc by simp
qed

text \<open>
  C7, as the code has it: the gate of \<open>get_proxy\<close> is the flag \<open>enabled\<close>, not the
  flag \<open>rotation\<close>. When the manager is not enabled, or has no endpoint, \<open>get_proxy\<close>
  returns \<open>None\<close> and leaves the cursor where it is.
\<close>

theorem get_proxy_none_when_off:
  assumes "\<not> enabled pm \<or> proxies pm = []"
  shows "get_proxy pm = (Inr None, pm)"
  using assms by (auto simp: get_proxy_def)

theorem get_proxy_none_when_off_witness:
  "\<not> enabled (ProxyManager False True [Some ''http://p1:8080''])
   \<and> get_proxy (ProxyManager False True [Some ''http://p1:8080''])
       = (Inr None, ProxyManager False True [Some ''http://p1:8080''])"
proof -
  have h: "\<not> enabled (ProxyManager False True [Some ''http://p1:8080''])
           \<or> proxies (ProxyManager False True [Some ''http://p1:8080'']) = []"
    by (simp add: ProxyManager_def)
  show ?thesis
    using get_proxy_none_when_off [OF h] by (simp add: ProxyManager_def)
qed

text \<open>
  C7 as stated fails: with rotation disabled, an enabled manager that has an endpoint
  returns that endpoint, not \<open>None\<close>.
\<close>

theorem get_proxy_rotation_off_counterexample:
  "\<not> rotation (ProxyManager True False [Some ''http://p1:8080''])
   \<and> fst (get_proxy (ProxyManager True False [Some ''http://p1:8080''])) = Inr (Some ''http://p1:8080'')
   \<and> fst (get_proxy (ProxyManager True False [Some ''http://p1:8080''])) \<noteq> Inr None"
  by (simp add: ProxyManager_def get_proxy_def)

text \<open>
  C8, as the code has it: for an enabled manager with at least one endpoint (and the
  cursor inside the list, as it is after construction and after every call): with
  rotation, \<open>k\<close> successive calls return the endpoints at the cursor, the cursor plus
  one, and so on modulo the number of endpoints, and each call moves the cursor by one
  modulo that number; without rotation every call returns the first endpoint and the
  cursor stays.
\<close>

theorem get_proxy_round_robin:
  assumes "enabled pm" "proxies pm \<noteq> []" "current_index pm < length (proxies pm)"
  shows "(rotation pm \<longrightarrow>
           get_proxy pm = (Inr (proxies pm ! current_index pm),
                           pm\<lparr>current_index := (current_index pm + 1) mod length (proxies pm)\<rparr>)
           \<and> get_proxy_times k pm =
               (map (\<lambda>i. Inr (proxies pm ! ((current_index pm + i) mod length (proxies pm)))) [0..<k],
                pm\<lparr>current_index := (current_index pm + k) mod length (proxies pm)\<rparr>))
      \<and> (\<not> rotation pm \<longrightarrow>
           get_proxy pm = (Inr (proxies pm ! 0), pm)
           \<and> get_proxy_times k pm = (replicate k (Inr (proxies pm ! 0)), pm))"
  using assms get_proxy_rotating [of pm] get_proxy_times_rotating [of pm k]
    get_proxy_times_sticky [of pm k]
  by (auto simp: get_proxy_def)

theorem get_proxy_round_robin_witness:
  "get_proxy_times 5 (ProxyManager True True [Some ''a'', Some ''b'', Some ''c''])
     = ([Inr (Some ''a''), Inr (Some ''b''), Inr (Some ''c''), Inr (Some ''a''), Inr (Some ''b'')],
        (ProxyManager True True [Some ''a'', Some ''b'', Some ''c''])\<lparr>current_index := 2\<rparr>)"
proof -
  let ?pm = "ProxyManager True True [Some ''a'', Some ''b'', Some ''c'']"
  have h1: "enabled ?pm" and h2: "proxies ?pm \<noteq> []"
    and h3: "current_index ?pm < length (proxies ?pm)" and h4: "rotation ?pm"
    by (simp_all add: ProxyManager_def)
  have up: "[0..<5] = [0, 1, 2, 3, 4]" by (simp add: upt_rec)
  from get_proxy_round_robin [OF h1 h2 h3, of 5] h4
  have "get_proxy_times 5 ?pm =
      (map (\<lambda>i. Inr (proxies ?pm ! ((current_index ?pm + i) mod length (proxies ?pm)))) [0..<5],
       ?pm\<lparr>current_index := (current_index ?pm + 5) mod length (proxies ?pm)\<rparr>)"
    by blast
  then show ?thesis by (simp add: ProxyManager_def up)
qed

text \<open>
  C8 as stated fails: a manager with rotation on and endpoints present, but not enabled,
  returns \<open>None\<close> and does not move its cursor.
\<close>

theorem get_proxy_round_robin_counterexample:
  "rotation (ProxyManager False True [Some ''a'', Some ''b''])
   \<and> proxies (ProxyManager False True [Some ''a'', Some ''b'']) \<noteq> []
   \<and> get_proxy (ProxyManager False True [Some ''a'', Some ''b''])
       = (Inr None, ProxyManager False True [Some ''a'', Some ''b''])
   \<and> fst (get_proxy (ProxyManager False True [Some ''a'', Some ''b''])) \<noteq> Inr (Some ''a'')"
  by (simp add: ProxyManager_def get_proxy_def)

subsection \<open>Retries\<close>

lemma loop_fail_retry:
  assumes "fetch_once w url ub st = (Inl e, st1)" "int a < max_retries eng - 1" "0 \<le> delay eng * (int a + 1)"
  shows "make_request_loop eng w url ub (a # rest) st =
     make_request_loop eng w url ub rest
       (st1\<lparr>trace := trace st1 @ [AttemptFailed (a + 1), Sleep (delay eng * (int a + 1))]\<rparr>)"
  using assms by (cases ub) (simp_all add: fetch_once_def sleep_def Let_def)

lemma loop_fail_last:
  assumes "fetch_once w url ub st = (Inl e, st1)" "\<not> int a < max_retries eng - 1"
  shows "make_request_loop eng w url ub (a # rest) st =
     (Inr None, st1\<lparr>trace := trace st1 @ [AttemptFailed (a + 1), GaveUp url]\<rparr>)"
  using assms by (cases ub) (simp_all add: fetch_once_def sleep_def Let_def)

lemma loop_fail_sleep_raises:
  assumes "fetch_once w url ub st = (Inl e, st1)" "int a < max_retries eng - 1" "delay eng * (int a + 1) < 0"
  shows "make_request_loop eng w url ub (a # rest) st =
     (Inl ValueError, st1\<lparr>trace := trace st1 @ [AttemptFailed (a + 1)]\<rparr>)"
  using assms by (cases ub) (simp_all add: fetch_once_def sleep_def Let_def)

lemma get_proxy_cursor_ok:
  assumes "cursor_ok pm"
  shows "\<exists>p pm1. get_proxy pm = (Inr p, pm1) \<and> cursor_ok pm1"
  using assms by (auto simp: get_proxy_def cursor_ok_def)

lemma fetch_once_fails:
  assumes "fetch_fails w url ub (tick st)" "cursor_ok (proxy_manager st)"
  shows "\<exists>e st1 new. fetch_once w url ub st = (Inl e, st1) \<and> cursor_ok (proxy_manager st1)
           \<and> tick st1 = Suc (tick st) \<and> trace st1 = trace st @ new
           \<and> outline new = [Fetch ub url None] \<and> length (filter is_fetch new) = 1"
proof -
  obtain p pm1 where gp: "get_proxy (proxy_manager st) = (Inr p, pm1)" and ok: "cursor_ok pm1"
    using get_proxy_cursor_ok [OF assms(2)] by blast
  show ?thesis
  proof (cases ub)
    case True
    then show ?thesis
      using assms(1) gp ok
      by (auto simp: fetch_once_def fetch_fails_def browser_fetch_def handle_captcha_def
          outline_def Let_def split: browser_reply.splits)
  next
    case False
    then show ?thesis
      using assms(1) gp ok
      by (auto simp: fetch_once_def fetch_fails_def direct_fetch_def
          outline_def Let_def split: http_reply.splits)
  qed
qed

lemma all_fail_loop:
  assumes "0 \<le> delay eng" "n = nat (max_retries eng)"
  shows "a \<le> n \<Longrightarrow> cursor_ok (proxy_manager st) \<Longrightarrow>
     (\<forall>t. tick st \<le> t \<and> t < tick st + (n - a) \<longrightarrow> fetch_fails w url ub t) \<Longrightarrow>
     \<exists>st' new. make_request_loop eng w url ub [a..<n] st = (Inr None, st')
        \<and> trace st' = trace st @ new
        \<and> length (filter is_fetch new) = n - a
        \<and> outline new = concat (map (failed_attempt eng url ub) [Suc a..<Suc n])"
proof (induction "n - a" arbitrary: a st)
  case 0
  then have "a = n" by simp
  then show ?case by (simp add: outline_def)
next
  case (Suc d)
  then have lt: "a < n" by simp
  have lst: "[a..<n] = a # [Suc a..<n]" using lt by (simp add: upt_conv_Cons)
  have "fetch_fails w url ub (tick st)" using Suc.prems(3) lt by simp
  from fetch_once_fails [OF this Suc.prems(2)]
  obtain e st1 new1 where f: "fetch_once w url ub st = (Inl e, st1)"
    and ok1: "cursor_ok (proxy_manager st1)" and t1: "tick st1 = Suc (tick st)"
    and tr1: "trace st1 = trace st @ new1" and o1: "outline new1 = [Fetch ub url None]"
    and c1: "length (filter is_fetch new1) = 1"
    by blast
  show ?case
  proof (cases "Suc a < n")
    case True
    let ?st2 = "st1\<lparr>trace := trace st1 @ [AttemptFailed (a + 1), Sleep (delay eng * (int a + 1))]\<rparr>"
    have r: "int a < max_retries eng - 1" using True assms(2) by linarith
    have d: "0 \<le> delay eng * (int a + 1)" using assms(1) by simp
    have step: "make_request_loop eng w url ub [a..<n] st = make_request_loop eng w url ub [Suc a..<n] ?st2"
      unfolding lst by (rule loop_fail_retry [OF f r d])
    have "\<exists>st' new. make_request_loop eng w url ub [Suc a..<n] ?st2 = (Inr None, st')
        \<and> trace st' = trace ?st2 @ new
        \<and> length (filter is_fetch new) = n - Suc a
        \<and> outline new = concat (map (failed_attempt eng url ub) [Suc (Suc a)..<Suc n])"
    proof (rule Suc.hyps(1))
      show "d = n - Suc a" using Suc.hyps(2) by simp
      show "Suc a \<le> n" using lt by simp
      show "cursor_ok (proxy_manager ?st2)" using ok1 by simp
      show "\<forall>t. tick ?st2 \<le> t \<and> t < tick ?st2 + (n - Suc a) \<longrightarrow> fetch_fails w url ub t"
        using Suc.prems(3) t1 lt by auto
    qed
    then obtain st' new where
      l: "make_request_loop eng w url ub [Suc a..<n] ?st2 = (Inr None, st')"
      and tr: "trace st' = trace ?st2 @ new"
      and c: "length (filter is_fetch new) = n - Suc a"
      and o: "outline new = concat (map (failed_attempt eng url ub) [Suc (Suc a)..<Suc n])"
      by blast
    let ?new = "new1 @ [AttemptFailed (a + 1), Sleep (delay eng * (int a + 1))] @ new"
    have ex: "failed_attempt eng url ub (Suc a) = [Fetch ub url None, AttemptFailed (Suc a), Sleep (delay eng * (int a + 1))]"
      using True assms(2) by (simp add: failed_attempt_def algebra_simps)
    have up: "[Suc a..<Suc n] = Suc a # [Suc (Suc a)..<Suc n]"
      using lt by (simp add: upt_conv_Cons del: upt_Suc)
    have "make_request_loop eng w url ub [a..<n] st = (Inr None, st')" using step l by simp
    moreover have "trace st' = trace st @ ?new" using tr tr1 by simp
    moreover have "length (filter is_fetch ?new) = n - a" using c c1 lt by simp
    moreover have "outline ?new = concat (map (failed_attempt eng url ub) [Suc a..<Suc n])"
      unfolding up using o o1 ex by (simp add: outline_def)
    ultimately show ?thesis by blast
  next
    case False
    then have an: "Suc a = n" using lt by simp
    let ?st2 = "st1\<lparr>trace := trace st1 @ [AttemptFailed (a + 1), GaveUp url]\<rparr>"
    have r: "\<not> int a < max_retries eng - 1" using an assms(2) by linarith
    have step: "make_request_loop eng w url ub [a..<n] st = (Inr None, ?st2)"
      unfolding lst by (rule loop_fail_last [OF f r])
    let ?new = "new1 @ [AttemptFailed (a + 1), GaveUp url]"
    have ex: "failed_attempt eng url ub (Suc a) = [Fetch ub url None, AttemptFailed (Suc a), GaveUp url]"
      using an assms(2) by (simp add: failed_attempt_def)
    have up: "[Suc a..<Suc n] = [Suc a]"
      using an by simp
    have "trace ?st2 = trace st @ ?new" using tr1 by simp
    moreover have "length (filter is_fetch ?new) = n - a" using c1 an by simp
    moreover have "outline ?new = concat (map (failed_attempt eng url ub) [Suc a..<Suc n])"
      unfolding up using o1 ex by (simp add: outline_def)
    ultimately show ?thesis using step by blast
  qed
qed

text \<open>
  C1: when every attempt of a fetch fails (in either mode), with a delay that is not
  negative and the proxy cursor inside its list, \<open>_make_request_with_retry\<close> returns
  \<open>None\<close> and does not raise; it fetches exactly \<open>max_retries\<close> times; and, proxies and
  hand-offs apart, what it does is: for \<open>k\<close> from 1 to \<open>max_retries\<close>, the \<open>k\<close>-th fetch,
  the notice that attempt \<open>k\<close> failed, and then a sleep of \<open>delay * k\<close> when \<open>k\<close> is
  less than \<open>max_retries\<close>, the final error notice when it is the last.
\<close>

theorem all_attempts_fail:
  assumes "0 \<le> delay eng" and "cursor_ok (proxy_manager st)"
    and "\<forall>t. tick st \<le> t \<and> t < tick st + nat (max_retries eng)
               \<longrightarrow> fetch_fails w url use_browser t"
  shows "\<exists>st' new.
           make_request_with_retry eng w url use_browser st = (Inr None, st')
           \<and> trace st' = trace st @ new
           \<and> length (filter is_fetch new) = nat (max_retries eng)
           \<and> (0 \<le> max_retries eng \<longrightarrow> int (length (filter is_fetch new)) = max_retries eng)
           \<and> outline new =
               concat (map (\<lambda>k. [Fetch use_browser url None, AttemptFailed k] @
                                 (if int k < max_retries eng then [Sleep (delay eng * int k)]
                                  else [GaveUp url]))
                           [1..<Suc (nat (max_retries eng))])"
proof -
  from all_fail_loop [OF assms(1) refl, of 0 st w url use_browser] assms(2,3)
  obtain st' new where
    "make_request_loop eng w url use_browser [0..<nat (max_retries eng)] st = (Inr None, st')"
    and "trace st' = trace st @ new"
    and "length (filter is_fetch new) = nat (max_retries eng)"
    and "outline new =
           concat (map (failed_attempt eng url use_browser) [Suc 0..<Suc (nat (max_retries eng))])"
    by auto
  then show ?thesis
    unfolding make_request_with_retry_def failed_attempt_def [abs_def] by auto
qed

theorem all_attempts_fail_witness:
  "\<exists>st' new.
     make_request_with_retry (ScraperEngine None None None None) dead_world ''https://example.org/'' True
         (initial_state (ProxyManager False False [])) = (Inr None, st')
     \<and> trace st' = new
     \<and> length (filter is_fetch new) = 3
     \<and> outline new =
          [Fetch True ''https://example.org/'' None, AttemptFailed 1, Sleep 2,
           Fetch True ''https://example.org/'' None, AttemptFailed 2, Sleep 4,
           Fetch True ''https://example.org/'' None, AttemptFailed 3, GaveUp ''https://example.org/'']"
proof -
  let ?eng = "ScraperEngine None None None None"
  let ?st = "initial_state (ProxyManager False False [])"
  have h1: "0 \<le> delay ?eng" by (simp add: ScraperEngine_def)
  have h2: "cursor_ok (proxy_manager ?st)"
    by (simp add: cursor_ok_def initial_state_def ProxyManager_def)
  have h3: "\<forall>t. tick ?st \<le> t \<and> t < tick ?st + nat (max_retries ?eng)
               \<longrightarrow> fetch_fails dead_world ''https://example.org/'' True t"
    by (simp add: fetch_fails_def dead_world_def)
  have up: "[Suc 0..<4] = [Suc 0, 2, 3]" by (simp add: upt_rec)
  have n: "max_retries ?eng = 3" "delay ?eng = 2" by (simp_all add: ScraperEngine_def)
  have tr: "trace ?st = []" by (simp add: initial_state_def)
  show ?thesis
    using all_attempts_fail [OF h1 h2 h3] unfolding n tr by (simp add: up)
qed

subsection \<open>The switch to browser mode\<close>

lemma switches_append [simp]: "switches (xs @ ys) = switches xs @ switches ys"
  by (simp add: switches_def)

lemma fetches_append [simp]: "fetches (xs @ ys) = fetches xs @ fetches ys"
  by (simp add: fetches_def)

lemma switches_simps [simp]:
  "switches [] = []" "switches (Switch u # tr) = u # switches tr"
  "switches (Fetch b u p # tr) = switches tr" "switches (Handoff # tr) = switches tr"
  "switches (AttemptFailed k # tr) = switches tr" "switches (Sleep d # tr) = switches tr"
  "switches (GaveUp u # tr) = switches tr"
  by (simp_all add: switches_def)

lemma fetches_simps [simp]:
  "fetches [] = []" "fetches (Switch u # tr) = fetches tr"
  "fetches (Fetch b u p # tr) = (b, u) # fetches tr" "fetches (Handoff # tr) = fetches tr"
  "fetches (AttemptFailed k # tr) = fetches tr" "fetches (Sleep d # tr) = fetches tr"
  "fetches (GaveUp u # tr) = fetches tr"
  by (simp_all add: fetches_def)

lemma fetch_once_trace:
  "\<exists>new. trace (snd (fetch_once w url ub st)) = trace st @ new \<and> switches new = []
      \<and> (fetches new = [] \<or> fetches new = [(ub, url)])"
  by (cases ub)
     (auto simp: fetch_once_def browser_fetch_def direct_fetch_def handle_captcha_def Let_def
        split: prod.splits sum.splits browser_reply.splits http_reply.splits option.splits)

lemma browser_loop_trace:
  "\<exists>new. trace (snd (make_request_loop eng w url True attempts st)) = trace st @ new
      \<and> switches new = [] \<and> (\<forall>f \<in> set (fetches new). f = (True, url))
      \<and> length (fetches new) \<le> length attempts
      \<and> (\<forall>e. fst (make_request_loop eng w url True attempts st) = Inl e \<longrightarrow> delay eng < 0)"
proof (induction attempts arbitrary: st)
  case Nil
  show ?case by simp
next
  case (Cons a rest)
  obtain r st1 where f: "fetch_once w url True st = (r, st1)" by (cases "fetch_once w url True st")
  from fetch_once_trace [of w url True st] f
  obtain n1 where t1: "trace st1 = trace st @ n1" and s1: "switches n1 = []"
    and f1: "fetches n1 = [] \<or> fetches n1 = [(True, url)]" by auto
  show ?case
  proof (cases r)
    case (Inr c)
    then have "make_request_loop eng w url True (a # rest) st = (Inr (Some c), st1)"
      using f by (simp add: fetch_once_def)
    then show ?thesis using t1 s1 f1 by auto
  next
    case (Inl e)
    then have f': "fetch_once w url True st = (Inl e, st1)" using f by simp
    show ?thesis
    proof (cases "int a < max_retries eng - 1")
      case False
      from loop_fail_last [OF f' False]
      show ?thesis using t1 s1 f1 by auto
    next
      case True
      show ?thesis
      proof (cases "0 \<le> delay eng * (int a + 1)")
        case False
        then have neg: "delay eng * (int a + 1) < 0" by simp
        then have "delay eng < 0" by (simp add: mult_less_0_iff)
        with loop_fail_sleep_raises [OF f' True neg]
        show ?thesis using t1 s1 f1 by auto
      next
        case nonneg: True
        let ?st2 = "st1\<lparr>trace := trace st1 @ [AttemptFailed (a + 1), Sleep (delay eng * (int a + 1))]\<rparr>"
        from Cons.IH [of ?st2] obtain n2 where
          t2: "trace (snd (make_request_loop eng w url True rest ?st2)) = trace ?st2 @ n2"
          and s2: "switches n2 = []" and f2: "\<forall>f \<in> set (fetches n2). f = (True, url)"
          and l2: "length (fetches n2) \<le> length rest"
          and e2: "\<forall>e. fst (make_request_loop eng w url True rest ?st2) = Inl e \<longrightarrow> delay eng < 0"
          by blast
        let ?new = "n1 @ [AttemptFailed (a + 1), Sleep (delay eng * (int a + 1))] @ n2"
        have eq: "make_request_loop eng w url True (a # rest) st = make_request_loop eng w url True rest ?st2"
          by (rule loop_fail_retry [OF f' True nonneg])
        have "trace (snd (make_request_loop eng w url True (a # rest) st)) = trace st @ ?new"
          unfolding eq t2 using t1 by simp
        moreover have "switches ?new = []" using s1 s2 by simp
        moreover have "\<forall>f \<in> set (fetches ?new). f = (True, url)" using f1 f2 by auto
        moreover have "length (fetches ?new) \<le> length (a # rest)" using f1 l2 by auto
        moreover have "\<forall>e. fst (make_request_loop eng w url True (a # rest) st) = Inl e \<longrightarrow> delay eng < 0"
          unfolding eq using e2 by simp
        ultimately show ?thesis by blast
      qed
    qed
  qed
qed

lemma escalation:
  assumes "direct_fetch w url st = (Inr body, st1)" and "check_for_captcha body"
  shows "\<exists>tail. trace (snd (make_request_loop eng w url False (attempt # rest) st))
                  = trace st1 @ [Switch url] @ tail
            \<and> switches tail = [] \<and> (\<forall>f \<in> set (fetches tail). f = (True, url))
            \<and> length (fetches tail) \<le> nat (max_retries eng)"
    and "0 \<le> delay eng \<Longrightarrow>
          make_request_loop eng w url False (attempt # rest) st
            = make_request_with_retry eng w url True (st1\<lparr>trace := trace st1 @ [Switch url]\<rparr>)"
proof -
  let ?st2 = "st1\<lparr>trace := trace st1 @ [Switch url]\<rparr>"
  let ?inner = "make_request_loop eng w url True [0..<nat (max_retries eng)] ?st2"
  from browser_loop_trace [of eng w url "[0..<nat (max_retries eng)]" ?st2]
  obtain new where t: "trace (snd ?inner) = trace ?st2 @ new" and s: "switches new = []"
    and f: "\<forall>f \<in> set (fetches new). f = (True, url)"
    and l: "length (fetches new) \<le> nat (max_retries eng)"
    and e: "\<forall>e. fst ?inner = Inl e \<longrightarrow> delay eng < 0"
    by auto
  obtain r st3 where inner: "?inner = (r, st3)" by (cases ?inner)
  have t3: "trace st3 = trace st1 @ [Switch url] @ new" using t inner by simp
  show "\<exists>tail. trace (snd (make_request_loop eng w url False (attempt # rest) st))
                  = trace st1 @ [Switch url] @ tail
            \<and> switches tail = [] \<and> (\<forall>f \<in> set (fetches tail). f = (True, url))
            \<and> length (fetches tail) \<le> nat (max_retries eng)"
  proof (cases r)
    case (Inr content)
    then have "make_request_loop eng w url False (attempt # rest) st = (Inr content, st3)"
      using assms inner by simp
    then show ?thesis using t3 s f l by auto
  next
    case (Inl err)
    then have neg: "delay eng < 0" using e inner by simp
    show ?thesis
    proof (cases "int attempt < max_retries eng - 1")
      case True
      have "delay eng * (int attempt + 1) < 0" using neg by (simp add: mult_less_0_iff)
      then have "make_request_loop eng w url False (attempt # rest) st
          = (Inl ValueError, st3\<lparr>trace := trace st3 @ [AttemptFailed (attempt + 1)]\<rparr>)"
        using assms inner Inl True by (simp add: sleep_def Let_def)
      then show ?thesis using t3 s f l by auto
    next
      case False
      then have "make_request_loop eng w url False (attempt # rest) st
          = (Inr None, st3\<lparr>trace := trace st3 @ [AttemptFailed (attempt + 1), GaveUp url]\<rparr>)"
        using assms inner Inl by (simp add: Let_def)
      then show ?thesis using t3 s f l by auto
    qed
  qed
  show "make_request_loop eng w url False (attempt # rest) st
            = make_request_with_retry eng w url True ?st2" if "0 \<le> delay eng"
  proof (cases r)
    case (Inr content)
    then show ?thesis using assms inner by (simp add: make_request_with_retry_def)
  next
    case (Inl err)
    then have "delay eng < 0" using e inner by simp
    with that show ?thesis by simp
  qed
qed

lemma direct_loop_trace:
  "\<exists>new. trace (snd (make_request_loop eng w url False attempts st)) = trace st @ new
      \<and> (switches new = [] \<or> switches new = [url])"
proof (induction attempts arbitrary: st)
  case Nil
  show ?case by simp
next
  case (Cons a rest)
  obtain r st1 where f: "fetch_once w url False st = (r, st1)" by (cases "fetch_once w url False st")
  from fetch_once_trace [of w url False st] f
  obtain n1 where t1: "trace st1 = trace st @ n1" and s1: "switches n1 = []" by auto
  have d: "direct_fetch w url st = (r, st1)" using f by (simp add: fetch_once_def)
  show ?case
  proof (cases r)
    case (Inr body)
    show ?thesis
    proof (cases "check_for_captcha body")
      case True
      from escalation(1) [OF d [unfolded Inr] True, of eng a rest]
      show ?thesis using t1 s1 by auto
    next
      case False
      then have "make_request_loop eng w url False (a # rest) st = (Inr (Some body), st1)"
        using d Inr by simp
      then show ?thesis using t1 s1 by auto
    qed
  next
    case (Inl e)
    then have f': "fetch_once w url False st = (Inl e, st1)" using f by simp
    show ?thesis
    proof (cases "int a < max_retries eng - 1")
      case False
      from loop_fail_last [OF f' False]
      show ?thesis using t1 s1 by auto
    next
      case True
      show ?thesis
      proof (cases "0 \<le> delay eng * (int a + 1)")
        case False
        then have neg: "delay eng * (int a + 1) < 0" by simp
        from loop_fail_sleep_raises [OF f' True neg]
        show ?thesis using t1 s1 by auto
      next
        case nonneg: True
        let ?st2 = "st1\<lparr>trace := trace st1 @ [AttemptFailed (a + 1), Sleep (delay eng * (int a + 1))]\<rparr>"
        from Cons.IH [of ?st2] obtain n2 where
          t2: "trace (snd (make_request_loop eng w url False rest ?st2)) = trace ?st2 @ n2"
          and s2: "switches n2 = [] \<or> switches n2 = [url]"
          by blast
        let ?new = "n1 @ [AttemptFailed (a + 1), Sleep (delay eng * (int a + 1))] @ n2"
        have eq: "make_request_loop eng w url False (a # rest) st = make_request_loop eng w url False rest ?st2"
          by (rule loop_fail_retry [OF f' True nonneg])
        have "trace (snd (make_request_loop eng w url False (a # rest) st)) = trace st @ ?new"
          unfolding eq t2 using t1 by simp
        moreover have "switches ?new = [] \<or> switches ?new = [url]" using s1 s2 by simp
        ultimately show ?thesis by blast
      qed
    qed
  qed
qed

lemma at_most_one_switch:
  "length (switches (drop (length (trace st)) (trace (snd (make_request_with_retry eng w url use_browser st))))) \<le> 1"
proof (cases use_browser)
  case True
  from browser_loop_trace [of eng w url "[0..<nat (max_retries eng)]" st]
  show ?thesis using True by (auto simp: make_request_with_retry_def)
next
  case False
  from direct_loop_trace [of eng w url "[0..<nat (max_retries eng)]" st]
  show ?thesis using False by (auto simp: make_request_with_retry_def)
qed


text \<open>
  C2: when an attempt of the direct mode gets a reply whose body triggers the CAPTCHA
  detector, the engine switches to browser mode once, for the same url: after that one
  direct fetch and the switch, the trace holds no further switch, only browser fetches of
  that url, and at most \<open>max_retries\<close> of them; with a delay that is not negative the
  outcome of the call is the outcome of that one browser-mode call. And no call of
  \<open>_make_request_with_retry\<close>, in either mode and from any state, switches more than
  once.
\<close>

theorem captcha_escalates_once:
  assumes "direct_fetch w url st = (Inr body, st1)" and "check_for_captcha body"
  shows "(\<exists>proxy. trace st1 = trace st @ [Fetch False url proxy])
       \<and> (\<exists>tail. trace (snd (make_request_loop eng w url False (attempt # rest) st))
                    = trace st1 @ [Switch url] @ tail
              \<and> switches tail = [] \<and> (\<forall>f \<in> set (fetches tail). f = (True, url))
              \<and> length (fetches tail) \<le> nat (max_retries eng))
       \<and> (0 \<le> delay eng \<longrightarrow>
            make_request_loop eng w url False (attempt # rest) st
              = make_request_with_retry eng w url True (st1\<lparr>trace := trace st1 @ [Switch url]\<rparr>))
       \<and> (\<forall>s b. length (switches (drop (length (trace s))
                     (trace (snd (make_request_with_retry eng w url b s))))) \<le> 1)"
proof -
  have "\<exists>proxy. trace st1 = trace st @ [Fetch False url proxy]"
    using assms(1)
    by (auto simp: direct_fetch_def Let_def
        split: prod.splits sum.splits http_reply.splits if_splits)
  then show ?thesis
    using escalation [OF assms, of eng attempt rest] at_most_one_switch [of _ eng w url]
    by blast
qed

theorem captcha_escalates_once_witness:
  "direct_fetch challenge_world ''https://example.org/'' (initial_state (ProxyManager False False []))
     = (Inr ''Please Complete CAPTCHA'',
        \<lparr>proxy_manager = ProxyManager False False [], tick = 1,
         trace = [Fetch False ''https://example.org/'' None]\<rparr>)
   \<and> check_for_captcha ''Please Complete CAPTCHA''
   \<and> make_request_loop (ScraperEngine None None None None) challenge_world ''https://example.org/''
        False [0, 1, 2] (initial_state (ProxyManager False False []))
     = (Inr (Some ''<html>fine</html>''),
        \<lparr>proxy_manager = ProxyManager False False [], tick = 2,
         trace = [Fetch False ''https://example.org/'' None, Switch ''https://example.org/'',
                  Fetch True ''https://example.org/'' None]\<rparr>)"
proof -
  let ?eng = "ScraperEngine None None None None"
  let ?url = "''https://example.org/''"
  let ?st = "initial_state (ProxyManager False False [])"
  let ?st1 = "\<lparr>proxy_manager = ProxyManager False False [], tick = 1,
               trace = [Fetch False ?url None]\<rparr>"
  have h2: "check_for_captcha ''Please Complete CAPTCHA''"
    by code_simp
  have h1: "direct_fetch challenge_world ?url ?st = (Inr ''Please Complete CAPTCHA'', ?st1)"
    by (simp add: direct_fetch_def challenge_world_def initial_state_def ProxyManager_def
        get_proxy_def)
  have d: "0 \<le> delay ?eng" by (simp add: ScraperEngine_def)
  have n: "[0..<nat (max_retries ?eng)] = [0, 1, 2]"
    by (simp add: ScraperEngine_def upt_rec)
  have clean: "\<not> check_for_captcha ''<html>fine</html>''"
    by code_simp
  have "make_request_loop ?eng challenge_world ?url False [0, 1, 2] ?st
      = make_request_with_retry ?eng challenge_world ?url True
          (?st1\<lparr>trace := trace ?st1 @ [Switch ?url]\<rparr>)"
    using captcha_escalates_once [OF h1 h2, of ?eng 0 "[1, 2]"] d by blast
  also have "\<dots> = (Inr (Some ''<html>fine</html>''),
        \<lparr>proxy_manager = ProxyManager False False [], tick = 2,
         trace = [Fetch False ?url None, Switch ?url, Fetch True ?url None]\<rparr>)"
    unfolding make_request_with_retry_def n
    using clean
    by (simp add: browser_fetch_def challenge_world_def ProxyManager_def get_proxy_def)
  finally show ?thesis using h1 h2 by simp
qed

subsection \<open>Extraction\<close>

lemma collect_successes: "collect parse cs data = data @ successes parse cs"
  by (induction cs arbitrary: data) (auto simp: successes_def split: sum.splits)

lemma successes_append: "successes parse (xs @ ys) = successes parse xs @ successes parse ys"
  by (simp add: successes_def)

lemma successes_skip: "parse bad = Inl e \<Longrightarrow> successes parse (bad # cs) = successes parse cs"
  by (simp add: successes_def)

lemma length_successes: "length (successes parse cs) \<le> length cs"
  by (induction cs) (auto simp: successes_def split: sum.splits)

lemma extract_items_found:
  assumes "html \<noteq> []" "make_soup w html = Inr soup"
  shows "extract_items w primary fallback limit parse (Some html) =
     and_then (containers w soup primary fallback)
       (\<lambda>found. Inr (successes parse (case limit of None \<Rightarrow> found | Some n \<Rightarrow> take n found)))"
  using assms by (simp add: extract_items_def and_then_def collect_successes)

lemma clean_page: "\<not> check_for_captcha ''<html>page</html>''"
  by code_simp

lemma fetch_page:
  "make_request_with_retry (ScraperEngine None None None None) (page_world sel txt at) url True
      (initial_state (ProxyManager False False []))
   = (Inr (Some ''<html>page</html>''),
      \<lparr>proxy_manager = ProxyManager False False [], tick = 1, trace = [Fetch True url None]\<rparr>)"
proof -
  have n: "[0..<nat (max_retries (ScraperEngine None None None None))] = [0, 1, 2]"
    by (simp add: ScraperEngine_def upt_rec)
  show ?thesis
    unfolding make_request_with_retry_def n
    using clean_page
    by (simp add: browser_fetch_def page_world_def ProxyManager_def get_proxy_def initial_state_def)
qed

lemma fallback_world_selects:
  "select fallback_world 0 (selector ''tiktok'' ''hashtags'') = Inr []"
  "select fallback_world 0 (selector ''amazon'' ''products'') = Inr []"
  "select fallback_world 0 (selector ''reddit'' ''posts'') = Inr []"
  "select fallback_world 0 (selector ''youtube'' ''videos'') = Inr []"
  "select fallback_world 0 (selector ''tiktok'' ''fallback_hashtags'') = Inr [1]"
  "select fallback_world 0 (selector ''amazon'' ''fallback_products'') = Inr [1]"
  "select fallback_world 0 (selector ''reddit'' ''fallback_posts'') = Inr [1]"
  "select fallback_world 0 (selector ''youtube'' ''fallback_videos'') = Inr [1]"
  by code_simp+

lemma strip_page: "strip '' page '' = ''page''"
  by code_simp

lemma tiktok_url_sale: "replace_char (CHR '' '') (CHR ''+'') ''on sale'' = ''on+sale''"
  by code_simp

text \<open>
  C4: in each of the four scrapers, when the parse of one of the containers the loop
  runs over raises, the scraper still returns, and its records are those of the
  containers before the failing one followed by those of the containers after it: the
  failing container is skipped and every other container is processed. The loop runs
  over all matched containers for TikTok, Amazon and Reddit, over the first ten for
  YouTube.
\<close>

theorem item_failure_is_skipped:
  assumes "html \<noteq> []" and "make_soup w html = Inr soup"
  shows "(make_request_with_retry eng w
            (platform_base_url eng ''tiktok'' ''https://www.tiktok.com/tag/'' @ tag) True st
            = (Inr (Some html), st1)
          \<and> containers w soup (selector ''tiktok'' ''hashtags'') (selector ''tiktok'' ''fallback_hashtags'')
            = Inr (before @ bad # after)
          \<and> tiktok_item w (platform_base_url eng ''tiktok'' ''https://www.tiktok.com/tag/'') bad = Inl e
          \<longrightarrow> scrape_tiktok_hashtags eng w tag st
            = (Inr (successes (tiktok_item w (platform_base_url eng ''tiktok'' ''https://www.tiktok.com/tag/'')) before
                    @ successes (tiktok_item w (platform_base_url eng ''tiktok'' ''https://www.tiktok.com/tag/'')) after),
               st1))
       \<and> (make_request_with_retry eng w
            (platform_base_url eng ''amazon'' ''https://www.amazon.com/best-sellers/'' @ category) True st
            = (Inr (Some html), st1)
          \<and> containers w soup (selector ''amazon'' ''products'') (selector ''amazon'' ''fallback_products'')
            = Inr (before @ bad # after)
          \<and> amazon_item w category bad = Inl e
          \<longrightarrow> scrape_amazon_bestsellers eng w category st
            = (Inr (successes (amazon_item w category) before @ successes (amazon_item w category) after),
               st1))
       \<and> (make_request_with_retry eng w
            (platform_base_url eng ''reddit'' ''https://www.reddit.com/r/'' @ subreddit) True st
            = (Inr (Some html), st1)
          \<and> containers w soup (selector ''reddit'' ''posts'') (selector ''reddit'' ''fallback_posts'')
            = Inr (before @ bad # after)
          \<and> reddit_item w subreddit bad = Inl e
          \<longrightarrow> scrape_reddit_posts eng w subreddit st
            = (Inr (successes (reddit_item w subreddit) before @ successes (reddit_item w subreddit) after),
               st1))
       \<and> (make_request_with_retry eng w
            (''https://www.youtube.com/results?search_query=''
               @ replace_char (CHR '' '') (CHR ''+'') query) True st
            = (Inr (Some html), st1)
          \<and> containers w soup (selector ''youtube'' ''videos'') (selector ''youtube'' ''fallback_videos'')
            = Inr found
          \<and> take 10 found = before @ bad # after
          \<and> youtube_item w query bad = Inl e
          \<longrightarrow> scrape_youtube_videos eng w query st
            = (Inr (successes (youtube_item w query) before @ successes (youtube_item w query) after),
               st1))"
  using assms
  by (simp add: scrape_tiktok_hashtags_def scrape_amazon_bestsellers_def scrape_reddit_posts_def
      scrape_youtube_videos_def Let_def extract_items_found and_then_def successes_append
      successes_skip)

lemma faulty_world_facts:
  "make_soup faulty_world html = Inr 0"
  "select faulty_world 0 css = Inr [1, 2, 3]"
  "select faulty_world 2 css = Inl ParserError"
  "n \<noteq> 0 \<Longrightarrow> n \<noteq> 2 \<Longrightarrow> select faulty_world n css = Inr []"
  "node_text faulty_world 2 = Inl ParserError"
  "n \<noteq> 2 \<Longrightarrow> node_text faulty_world n = Inr ''#deal ''"
  "find_next faulty_world n nm = Inr None"
  "attrs faulty_world n k = None"
  by (simp_all add: faulty_world_def page_world_def)

lemma faulty_world_fetch:
  "make_request_with_retry (ScraperEngine None None None None) faulty_world url True
      (initial_state (ProxyManager False False []))
   = (Inr (Some ''<html>page</html>''),
      \<lparr>proxy_manager = ProxyManager False False [], tick = 1, trace = [Fetch True url None]\<rparr>)"
  unfolding faulty_world_def by (rule fetch_page)

lemma faulty_world_items:
  "amazon_item faulty_world ''toys'' 2 = Inl ParserError"
  "tiktok_item faulty_world ''https://www.tiktok.com/tag/'' 2 = Inl ParserError"
  "reddit_item faulty_world ''deals'' 2 = Inl ParserError"
  "youtube_item faulty_world ''on sale'' 2 = Inl ParserError"
  "n \<noteq> 0 \<Longrightarrow> n \<noteq> 2 \<Longrightarrow> amazon_item faulty_world ''toys'' n =
      Inr [(''platform'', Str ''amazon''), (''type'', Str ''product''), (''category'', Str ''toys''),
           (''name'', Str ''N/A''), (''price'', Str ''N/A''), (''rating'', Str ''N/A'')]"
  "n \<noteq> 2 \<Longrightarrow> tiktok_item faulty_world ''https://www.tiktok.com/tag/'' n =
      Inr [(''platform'', Str ''tiktok''), (''type'', Str ''hashtag''), (''name'', Str ''deal''),
           (''views'', Str ''N/A''), (''url'', Str ''https://www.tiktok.com/tag/deal'')]"
  "n \<noteq> 0 \<Longrightarrow> n \<noteq> 2 \<Longrightarrow> reddit_item faulty_world ''deals'' n =
      Inr [(''platform'', Str ''reddit''), (''type'', Str ''post''), (''subreddit'', Str ''deals''),
           (''title'', Str ''N/A''), (''upvotes'', Str ''0''), (''comments'', Str ''0'')]"
  "n \<noteq> 0 \<Longrightarrow> n \<noteq> 2 \<Longrightarrow> youtube_item faulty_world ''on sale'' n =
      Inr [(''platform'', Str ''youtube''), (''type'', Str ''video''), (''query'', Str ''on sale''),
           (''title'', Str ''N/A''), (''views'', Str ''N/A''), (''date'', Str ''N/A''),
           (''video_id'', PyNone), (''url'', Str ''N/A'')]"
proof -
  have st: "strip ''#deal '' = ''#deal''" by code_simp
  have ls: "lstrip ''#'' ''#deal'' = ''deal''" by code_simp
  show "amazon_item faulty_world ''toys'' 2 = Inl ParserError"
    "tiktok_item faulty_world ''https://www.tiktok.com/tag/'' 2 = Inl ParserError"
    "reddit_item faulty_world ''deals'' 2 = Inl ParserError"
    "youtube_item faulty_world ''on sale'' 2 = Inl ParserError"
    by (simp_all add: amazon_item_def tiktok_item_def reddit_item_def youtube_item_def
        select_one_def and_then_def faulty_world_facts)
  show "n \<noteq> 0 \<Longrightarrow> n \<noteq> 2 \<Longrightarrow> amazon_item faulty_world ''toys'' n =
      Inr [(''platform'', Str ''amazon''), (''type'', Str ''product''), (''category'', Str ''toys''),
           (''name'', Str ''N/A''), (''price'', Str ''N/A''), (''rating'', Str ''N/A'')]"
    by (simp add: amazon_item_def select_one_def and_then_def text_or_def faulty_world_facts)
  show "n \<noteq> 2 \<Longrightarrow> tiktok_item faulty_world ''https://www.tiktok.com/tag/'' n =
      Inr [(''platform'', Str ''tiktok''), (''type'', Str ''hashtag''), (''name'', Str ''deal''),
           (''views'', Str ''N/A''), (''url'', Str ''https://www.tiktok.com/tag/deal'')]"
    by (simp add: tiktok_item_def and_then_def text_or_def faulty_world_facts st ls Let_def)
  show "n \<noteq> 0 \<Longrightarrow> n \<noteq> 2 \<Longrightarrow> reddit_item faulty_world ''deals'' n =
      Inr [(''platform'', Str ''reddit''), (''type'', Str ''post''), (''subreddit'', Str ''deals''),
           (''title'', Str ''N/A''), (''upvotes'', Str ''0''), (''comments'', Str ''0'')]"
    by (simp add: reddit_item_def select_one_def and_then_def text_or_def faulty_world_facts)
  show "n \<noteq> 0 \<Longrightarrow> n \<noteq> 2 \<Longrightarrow> youtube_item faulty_world ''on sale'' n =
      Inr [(''platform'', Str ''youtube''), (''type'', Str ''video''), (''query'', Str ''on sale''),
           (''title'', Str ''N/A''), (''views'', Str ''N/A''), (''date'', Str ''N/A''),
           (''video_id'', PyNone), (''url'', Str ''N/A'')]"
    by (simp add: youtube_item_def select_one_def and_then_def text_or_def faulty_world_facts
        Let_def)
qed

theorem item_failure_is_skipped_witness:
  "scrape_tiktok_hashtags (ScraperEngine None None None None) faulty_world ''sale''
      (initial_state (ProxyManager False False []))
    = (Inr [[(''platform'', Str ''tiktok''), (''type'', Str ''hashtag''), (''name'', Str ''deal''),
             (''views'', Str ''N/A''), (''url'', Str ''https://www.tiktok.com/tag/deal'')],
            [(''platform'', Str ''tiktok''), (''type'', Str ''hashtag''), (''name'', Str ''deal''),
             (''views'', Str ''N/A''), (''url'', Str ''https://www.tiktok.com/tag/deal'')]],
       \<lparr>proxy_manager = ProxyManager False False [], tick = 1,
        trace = [Fetch True ''https://www.tiktok.com/tag/sale'' None]\<rparr>)
   \<and> scrape_amazon_bestsellers (ScraperEngine None None None None) faulty_world ''toys''
      (initial_state (ProxyManager False False []))
    = (Inr [[(''platform'', Str ''amazon''), (''type'', Str ''product''), (''category'', Str ''toys''),
             (''name'', Str ''N/A''), (''price'', Str ''N/A''), (''rating'', Str ''N/A'')],
            [(''platform'', Str ''amazon''), (''type'', Str ''product''), (''category'', Str ''toys''),
             (''name'', Str ''N/A''), (''price'', Str ''N/A''), (''rating'', Str ''N/A'')]],
       \<lparr>proxy_manager = ProxyManager False False [], tick = 1,
        trace = [Fetch True ''https://www.amazon.com/best-sellers/toys'' None]\<rparr>)
   \<and> scrape_reddit_posts (ScraperEngine None None None None) faulty_world ''deals''
      (initial_state (ProxyManager False False []))
    = (Inr [[(''platform'', Str ''reddit''), (''type'', Str ''post''), (''subreddit'', Str ''deals''),
             (''title'', Str ''N/A''), (''upvotes'', Str ''0''), (''comments'', Str ''0'')],
            [(''platform'', Str ''reddit''), (''type'', Str ''post''), (''subreddit'', Str ''deals''),
             (''title'', Str ''N/A''), (''upvotes'', Str ''0''), (''comments'', Str ''0'')]],
       \<lparr>proxy_manager = ProxyManager False False [], tick = 1,
        trace = [Fetch True ''https://www.reddit.com/r/deals'' None]\<rparr>)
   \<and> scrape_youtube_videos (ScraperEngine None None None None) faulty_world ''on sale''
      (initial_state (ProxyManager False False []))
    = (Inr [[(''platform'', Str ''youtube''), (''type'', Str ''video''), (''query'', Str ''on sale''),
             (''title'', Str ''N/A''), (''views'', Str ''N/A''), (''date'', Str ''N/A''),
             (''video_id'', PyNone), (''url'', Str ''N/A'')],
            [(''platform'', Str ''youtube''), (''type'', Str ''video''), (''query'', Str ''on sale''),
             (''title'', Str ''N/A''), (''views'', Str ''N/A''), (''date'', Str ''N/A''),
             (''video_id'', PyNone), (''url'', Str ''N/A'')]],
       \<lparr>proxy_manager = ProxyManager False False [], tick = 1,
        trace = [Fetch True ''https://www.youtube.com/results?search_query=on+sale'' None]\<rparr>)"
proof -
  let ?eng = "ScraperEngine None None None None"
  let ?st = "initial_state (ProxyManager False False [])"
  have h1: "''<html>page</html>'' \<noteq> []" by simp
  have h2: "make_soup faulty_world ''<html>page</html>'' = Inr 0"
    by (rule faulty_world_facts)
  have base: "platform_base_url ?eng ''amazon'' ''https://www.amazon.com/best-sellers/'' = ''https://www.amazon.com/best-sellers/''"
    "platform_base_url ?eng ''tiktok'' ''https://www.tiktok.com/tag/'' = ''https://www.tiktok.com/tag/''"
    "platform_base_url ?eng ''reddit'' ''https://www.reddit.com/r/'' = ''https://www.reddit.com/r/''"
    by (simp_all add: platform_base_url_def ScraperEngine_def)
  have found: "\<And>primary fallback. containers faulty_world 0 primary fallback = Inr ([1] @ 2 # [3])"
    by (simp add: containers_def and_then_def faulty_world_facts)
  have ten: "take 10 ([1] @ 2 # [3]) = [1] @ 2 # [3 :: nat]" by simp
  note inst = item_failure_is_skipped [OF h1 h2, of ?eng "''sale''" ?st _ "[1]" 2 "[3]" ParserError
      "''toys''" "''deals''" "''on sale''" "[1] @ 2 # [3]", unfolded base tiktok_url_sale]
  have "scrape_tiktok_hashtags ?eng faulty_world ''sale'' ?st
    = (Inr [[(''platform'', Str ''tiktok''), (''type'', Str ''hashtag''), (''name'', Str ''deal''),
             (''views'', Str ''N/A''), (''url'', Str ''https://www.tiktok.com/tag/deal'')],
            [(''platform'', Str ''tiktok''), (''type'', Str ''hashtag''), (''name'', Str ''deal''),
             (''views'', Str ''N/A''), (''url'', Str ''https://www.tiktok.com/tag/deal'')]],
       \<lparr>proxy_manager = ProxyManager False False [], tick = 1,
        trace = [Fetch True ''https://www.tiktok.com/tag/sale'' None]\<rparr>)"
    using inst found ten
    by (simp add: faulty_world_fetch faulty_world_items successes_def)
  moreover have "scrape_amazon_bestsellers ?eng faulty_world ''toys'' ?st
    = (Inr [[(''platform'', Str ''amazon''), (''type'', Str ''product''), (''category'', Str ''toys''),
             (''name'', Str ''N/A''), (''price'', Str ''N/A''), (''rating'', Str ''N/A'')],
            [(''platform'', Str ''amazon''), (''type'', Str ''product''), (''category'', Str ''toys''),
             (''name'', Str ''N/A''), (''price'', Str ''N/A''), (''rating'', Str ''N/A'')]],
       \<lparr>proxy_manager = ProxyManager False False [], tick = 1,
        trace = [Fetch True ''https://www.amazon.com/best-sellers/toys'' None]\<rparr>)"
    using inst found ten
    by (simp add: faulty_world_fetch faulty_world_items successes_def)
  moreover have "scrape_reddit_posts ?eng faulty_world ''deals'' ?st
    = (Inr [[(''platform'', Str ''reddit''), (''type'', Str ''post''), (''subreddit'', Str ''deals''),
             (''title'', Str ''N/A''), (''upvotes'', Str ''0''), (''comments'', Str ''0'')],
            [(''platform'', Str ''reddit''), (''type'', Str ''post''), (''subreddit'', Str ''deals''),
             (''title'', Str ''N/A''), (''upvotes'', Str ''0''), (''comments'', Str ''0'')]],
       \<lparr>proxy_manager = ProxyManager False False [], tick = 1,
        trace = [Fetch True ''https://www.reddit.com/r/deals'' None]\<rparr>)"
    using inst found ten
    by (simp add: faulty_world_fetch faulty_world_items successes_def)
  moreover have "scrape_youtube_videos ?eng faulty_world ''on sale'' ?st
    = (Inr [[(''platform'', Str ''youtube''), (''type'', Str ''video''), (''query'', Str ''on sale''),
             (''title'', Str ''N/A''), (''views'', Str ''N/A''), (''date'', Str ''N/A''),
             (''video_id'', PyNone), (''url'', Str ''N/A'')],
            [(''platform'', Str ''youtube''), (''type'', Str ''video''), (''query'', Str ''on sale''),
             (''title'', Str ''N/A''), (''views'', Str ''N/A''), (''date'', Str ''N/A''),
             (''video_id'', PyNone), (''url'', Str ''N/A'')]],
       \<lparr>proxy_manager = ProxyManager False False [], tick = 1,
        trace = [Fetch True ''https://www.youtube.com/results?search_query=on+sale'' None]\<rparr>)"
    using inst found ten
    by (simp add: faulty_world_fetch faulty_world_items successes_def)
  ultimately show ?thesis by blast
qed

text \<open>
  C5: in each of the four scrapers, when the primary container selector matches nothing
  in the document, the records returned are those of the containers the fallback
  selector matches (the first ten of them for YouTube).
\<close>

theorem fallback_selector_applied:
  assumes "html \<noteq> []" and "make_soup w html = Inr soup"
  shows "(make_request_with_retry eng w
            (platform_base_url eng ''tiktok'' ''https://www.tiktok.com/tag/'' @ tag) True st
            = (Inr (Some html), st1)
          \<and> select w soup (selector ''tiktok'' ''hashtags'') = Inr []
          \<longrightarrow> scrape_tiktok_hashtags eng w tag st
            = (and_then (select w soup (selector ''tiktok'' ''fallback_hashtags''))
                 (\<lambda>found. Inr (successes
                    (tiktok_item w (platform_base_url eng ''tiktok'' ''https://www.tiktok.com/tag/''))
                    found)),
               st1))
       \<and> (make_request_with_retry eng w
            (platform_base_url eng ''amazon'' ''https://www.amazon.com/best-sellers/'' @ category) True st
            = (Inr (Some html), st1)
          \<and> select w soup (selector ''amazon'' ''products'') = Inr []
          \<longrightarrow> scrape_amazon_bestsellers eng w category st
            = (and_then (select w soup (selector ''amazon'' ''fallback_products''))
                 (\<lambda>found. Inr (successes (amazon_item w category) found)),
               st1))
       \<and> (make_request_with_retry eng w
            (platform_base_url eng ''reddit'' ''https://www.reddit.com/r/'' @ subreddit) True st
            = (Inr (Some html), st1)
          \<and> select w soup (selector ''reddit'' ''posts'') = Inr []
          \<longrightarrow> scrape_reddit_posts eng w subreddit st
            = (and_then (select w soup (selector ''reddit'' ''fallback_posts''))
                 (\<lambda>found. Inr (successes (reddit_item w subreddit) found)),
               st1))
       \<and> (make_request_with_retry eng w
            (''https://www.youtube.com/results?search_query=''
               @ replace_char (CHR '' '') (CHR ''+'') query) True st
            = (Inr (Some html), st1)
          \<and> select w soup (selector ''youtube'' ''videos'') = Inr []
          \<longrightarrow> scrape_youtube_videos eng w query st
            = (and_then (select w soup (selector ''youtube'' ''fallback_videos''))
                 (\<lambda>found. Inr (successes (youtube_item w query) (take 10 found))),
               st1))"
  using assms
  by (simp add: scrape_tiktok_hashtags_def scrape_amazon_bestsellers_def scrape_reddit_posts_def
      scrape_youtube_videos_def Let_def extract_items_found containers_def and_then_def)

theorem fallback_selector_applied_witness:
  "scrape_tiktok_hashtags (ScraperEngine None None None None) fallback_world ''sale''
      (initial_state (ProxyManager False False []))
    = (Inr [[(''platform'', Str ''tiktok''), (''type'', Str ''hashtag''), (''name'', Str ''page''),
             (''views'', Str ''N/A''), (''url'', Str ''https://www.tiktok.com/tag/page'')]],
       \<lparr>proxy_manager = ProxyManager False False [], tick = 1,
        trace = [Fetch True ''https://www.tiktok.com/tag/sale'' None]\<rparr>)
   \<and> scrape_amazon_bestsellers (ScraperEngine None None None None) fallback_world ''toys''
      (initial_state (ProxyManager False False []))
    = (Inr [[(''platform'', Str ''amazon''), (''type'', Str ''product''), (''category'', Str ''toys''),
             (''name'', Str ''N/A''), (''price'', Str ''N/A''), (''rating'', Str ''N/A'')]],
       \<lparr>proxy_manager = ProxyManager False False [], tick = 1,
        trace = [Fetch True ''https://www.amazon.com/best-sellers/toys'' None]\<rparr>)
   \<and> scrape_reddit_posts (ScraperEngine None None None None) fallback_world ''deals''
      (initial_state (ProxyManager False False []))
    = (Inr [[(''platform'', Str ''reddit''), (''type'', Str ''post''), (''subreddit'', Str ''deals''),
             (''title'', Str ''N/A''), (''upvotes'', Str ''0''), (''comments'', Str ''0'')]],
       \<lparr>proxy_manager = ProxyManager False False [], tick = 1,
        trace = [Fetch True ''https://www.reddit.com/r/deals'' None]\<rparr>)
   \<and> scrape_youtube_videos (ScraperEngine None None None None) fallback_world ''on sale''
      (initial_state (ProxyManager False False []))
    = (Inr [[(''platform'', Str ''youtube''), (''type'', Str ''video''), (''query'', Str ''on sale''),
             (''title'', Str ''N/A''), (''views'', Str ''N/A''), (''date'', Str ''N/A''),
             (''video_id'', PyNone), (''url'', Str ''N/A'')]],
       \<lparr>proxy_manager = ProxyManager False False [], tick = 1,
        trace = [Fetch True ''https://www.youtube.com/results?search_query=on+sale'' None]\<rparr>)"
proof -
  let ?eng = "ScraperEngine None None None None"
  let ?st = "initial_state (ProxyManager False False [])"
  have h1: "''<html>page</html>'' \<noteq> []" by simp
  have h2: "make_soup fallback_world ''<html>page</html>'' = Inr 0"
    by (simp add: fallback_world_def page_world_def)
  have base: "platform_base_url ?eng ''amazon'' ''https://www.amazon.com/best-sellers/'' = ''https://www.amazon.com/best-sellers/''"
    "platform_base_url ?eng ''tiktok'' ''https://www.tiktok.com/tag/'' = ''https://www.tiktok.com/tag/''"
    "platform_base_url ?eng ''reddit'' ''https://www.reddit.com/r/'' = ''https://www.reddit.com/r/''"
    by (simp_all add: platform_base_url_def ScraperEngine_def)
  have leaf: "\<And>n css. n \<noteq> 0 \<Longrightarrow> select fallback_world n css = Inr []"
    and ntext: "\<And>n. node_text fallback_world n = Inr '' page ''"
    and nxt: "\<And>n nm. find_next fallback_world n nm = Inr None"
    by (simp_all add: fallback_world_def page_world_def)
  have items:
    "tiktok_item fallback_world ''https://www.tiktok.com/tag/'' (Suc 0) =
      Inr [(''platform'', Str ''tiktok''), (''type'', Str ''hashtag''), (''name'', Str ''page''),
           (''views'', Str ''N/A''), (''url'', Str ''https://www.tiktok.com/tag/page'')]"
    "amazon_item fallback_world ''toys'' (Suc 0) =
      Inr [(''platform'', Str ''amazon''), (''type'', Str ''product''), (''category'', Str ''toys''),
           (''name'', Str ''N/A''), (''price'', Str ''N/A''), (''rating'', Str ''N/A'')]"
    "reddit_item fallback_world ''deals'' (Suc 0) =
      Inr [(''platform'', Str ''reddit''), (''type'', Str ''post''), (''subreddit'', Str ''deals''),
           (''title'', Str ''N/A''), (''upvotes'', Str ''0''), (''comments'', Str ''0'')]"
    "youtube_item fallback_world ''on sale'' (Suc 0) =
      Inr [(''platform'', Str ''youtube''), (''type'', Str ''video''), (''query'', Str ''on sale''),
           (''title'', Str ''N/A''), (''views'', Str ''N/A''), (''date'', Str ''N/A''),
           (''video_id'', PyNone), (''url'', Str ''N/A'')]"
    by (simp_all add: tiktok_item_def amazon_item_def reddit_item_def youtube_item_def
        select_one_def and_then_def text_or_def leaf ntext nxt strip_page Let_def lstrip_def)
  have fetched: "\<And>url. make_request_with_retry ?eng fallback_world url True ?st
      = (Inr (Some ''<html>page</html>''),
         \<lparr>proxy_manager = ProxyManager False False [], tick = 1, trace = [Fetch True url None]\<rparr>)"
    unfolding fallback_world_def by (rule fetch_page)
  note inst = fallback_selector_applied [OF h1 h2, of ?eng "''sale''" ?st _ "''toys''" "''deals''" "''on sale''",
      unfolded base tiktok_url_sale]
  have "scrape_tiktok_hashtags ?eng fallback_world ''sale'' ?st
    = (Inr [[(''platform'', Str ''tiktok''), (''type'', Str ''hashtag''), (''name'', Str ''page''),
             (''views'', Str ''N/A''), (''url'', Str ''https://www.tiktok.com/tag/page'')]],
       \<lparr>proxy_manager = ProxyManager False False [], tick = 1,
        trace = [Fetch True ''https://www.tiktok.com/tag/sale'' None]\<rparr>)"
    using inst
    by (simp add: fetched fallback_world_selects and_then_def successes_def items)
  moreover have "scrape_amazon_bestsellers ?eng fallback_world ''toys'' ?st
    = (Inr [[(''platform'', Str ''amazon''), (''type'', Str ''product''), (''category'', Str ''toys''),
             (''name'', Str ''N/A''), (''price'', Str ''N/A''), (''rating'', Str ''N/A'')]],
       \<lparr>proxy_manager = ProxyManager False False [], tick = 1,
        trace = [Fetch True ''https://www.amazon.com/best-sellers/toys'' None]\<rparr>)"
    using inst
    by (simp add: fetched fallback_world_selects and_then_def successes_def items)
  moreover have "scrape_reddit_posts ?eng fallback_world ''deals'' ?st
    = (Inr [[(''platform'', Str ''reddit''), (''type'', Str ''post''), (''subreddit'', Str ''deals''),
             (''title'', Str ''N/A''), (''upvotes'', Str ''0''), (''comments'', Str ''0'')]],
       \<lparr>proxy_manager = ProxyManager False False [], tick = 1,
        trace = [Fetch True ''https://www.reddit.com/r/deals'' None]\<rparr>)"
    using inst
    by (simp add: fetched fallback_world_selects and_then_def successes_def items)
  moreover have "scrape_youtube_videos ?eng fallback_world ''on sale'' ?st
    = (Inr [[(''platform'', Str ''youtube''), (''type'', Str ''video''), (''query'', Str ''on sale''),
             (''title'', Str ''N/A''), (''views'', Str ''N/A''), (''date'', Str ''N/A''),
             (''video_id'', PyNone), (''url'', Str ''N/A'')]],
       \<lparr>proxy_manager = ProxyManager False False [], tick = 1,
        trace = [Fetch True ''https://www.youtube.com/results?search_query=on+sale'' None]\<rparr>)"
    using inst
    by (simp add: fetched fallback_world_selects and_then_def successes_def items)
  ultimately show ?thesis by blast
qed

text \<open>
  C9: whatever the document holds and whichever selector matched, the YouTube scraper
  returns at most ten records.
\<close>

theorem youtube_at_most_ten:
  assumes "scrape_youtube_videos eng w query st = (Inr records, st1)"
  shows "length records \<le> 10"
proof -
  have "length (collect parse (take 10 found) []) \<le> 10" for parse found
    using length_successes [of parse "take 10 found"] by (simp add: collect_successes)
  then show ?thesis
    using assms
    by (auto simp: scrape_youtube_videos_def Let_def extract_items_def and_then_def
        split: prod.splits sum.splits option.splits if_splits)
qed


lemma successes_replicate:
  "(\<And>c. c \<in> set cs \<Longrightarrow> parse c = Inr r) \<Longrightarrow> successes parse cs = replicate (length cs) r"
  by (induction cs) (auto simp: successes_def)

theorem youtube_at_most_ten_witness:
  "scrape_youtube_videos (ScraperEngine None None None None) crowded_world ''on sale''
      (initial_state (ProxyManager False False []))
    = (Inr (replicate 10
         [(''platform'', Str ''youtube''), (''type'', Str ''video''), (''query'', Str ''on sale''),
          (''title'', Str ''N/A''), (''views'', Str ''N/A''), (''date'', Str ''N/A''),
          (''video_id'', PyNone), (''url'', Str ''N/A'')]),
       \<lparr>proxy_manager = ProxyManager False False [], tick = 1,
        trace = [Fetch True ''https://www.youtube.com/results?search_query=on+sale'' None]\<rparr>)
   \<and> length (replicate 10
         [(''platform'', Str ''youtube''), (''type'', Str ''video''), (''query'', Str ''on sale''),
          (''title'', Str ''N/A''), (''views'', Str ''N/A''), (''date'', Str ''N/A''),
          (''video_id'', PyNone), (''url'', Str ''N/A'')]) \<le> 10
   \<and> select crowded_world 0 (selector ''youtube'' ''videos'') = Inr [1..<51]"
proof -
  let ?eng = "ScraperEngine None None None None"
  let ?st = "initial_state (ProxyManager False False [])"
  let ?r = "[(''platform'', Str ''youtube''), (''type'', Str ''video''), (''query'', Str ''on sale''),
          (''title'', Str ''N/A''), (''views'', Str ''N/A''), (''date'', Str ''N/A''),
          (''video_id'', PyNone), (''url'', Str ''N/A'')]"
  have fetched: "\<And>url. make_request_with_retry ?eng crowded_world url True ?st
      = (Inr (Some ''<html>page</html>''),
         \<lparr>proxy_manager = ProxyManager False False [], tick = 1, trace = [Fetch True url None]\<rparr>)"
    unfolding crowded_world_def by (rule fetch_page)
  have sel0: "\<And>css. select crowded_world 0 css = Inr [1..<51]"
    and leaf: "\<And>n css. n \<noteq> 0 \<Longrightarrow> select crowded_world n css = Inr []"
    and soup: "\<And>html. make_soup crowded_world html = Inr 0"
    by (simp_all add: crowded_world_def page_world_def)
  have item: "\<And>n. n \<noteq> 0 \<Longrightarrow> youtube_item crowded_world ''on sale'' n = Inr ?r"
    by (simp add: youtube_item_def select_one_def and_then_def text_or_def leaf Let_def)
  have "successes (youtube_item crowded_world ''on sale'') (take 10 [1..<51])
      = replicate (length (take 10 [1..<51])) ?r"
    by (rule successes_replicate) (auto dest!: in_set_takeD intro: item)
  then have recs: "successes (youtube_item crowded_world ''on sale'') (take 10 [1..<51]) = replicate 10 ?r"
    by simp
  have ne: "[1..<51] \<noteq> ([] :: nat list)" by simp
  have run: "scrape_youtube_videos ?eng crowded_world ''on sale'' ?st
    = (Inr (replicate 10 ?r),
       \<lparr>proxy_manager = ProxyManager False False [], tick = 1,
        trace = [Fetch True ''https://www.youtube.com/results?search_query=on+sale'' None]\<rparr>)"
    unfolding scrape_youtube_videos_def Let_def tiktok_url_sale
    by (simp only: fetched prod.case sum.case extract_items_found [OF _ soup] containers_def
        sel0 and_then_def ne if_False option.case recs list.distinct not_False_eq_True)
       simp
  show ?thesis
    using run youtube_at_most_ten [OF run] sel0 by blast
qed

subsection \<open>Video identifiers\<close>

lemma after_last_Cons:
  "after_last sep (c # cs) =
     (if sep \<in> set cs then after_last sep cs else if c = sep then cs else c # cs)"
proof (cases "sep \<in> set cs")
  case True
  then have "takeWhile (\<lambda>x. x \<noteq> sep) (rev cs @ [c]) = takeWhile (\<lambda>x. x \<noteq> sep) (rev cs)"
    by (intro takeWhile_append1 [of sep]) auto
  then show ?thesis using True by (simp add: after_last_def)
next
  case False
  then have "takeWhile (\<lambda>x. x \<noteq> sep) (rev cs @ [c]) = rev cs @ takeWhile (\<lambda>x. x \<noteq> sep) [c]"
    by (intro takeWhile_append2) auto
  then show ?thesis using False by (simp add: after_last_def)
qed

lemma split_acc_nonempty: "split_acc sep cur s \<noteq> []"
  by (induction s arbitrary: cur) auto

lemma after_last_absent: "sep \<notin> set s \<Longrightarrow> after_last sep s = s"
  by (induction s) (auto simp: after_last_Cons after_last_def)

lemma last_split_acc:
  "last (split_acc sep cur s) = (if sep \<in> set s then after_last sep s else cur @ s)"
proof (induction s arbitrary: cur)
  case Nil
  show ?case by simp
next
  case (Cons c cs)
  show ?case using Cons by (auto simp: after_last_Cons split_acc_nonempty)
qed

lemma last_split: "last (split sep s) = after_last sep s"
  by (simp add: split_def last_split_acc after_last_absent)

lemma map_of_youtube:
  "map_of [(''platform'', a), (''type'', b), (''query'', c), (''title'', d), (''views'', e),
           (''date'', f), (''video_id'', g), (''url'', h)] ''video_id'' = Some g"
  "map_of [(''platform'', a), (''type'', b), (''query'', c), (''title'', d), (''views'', e),
           (''date'', f), (''video_id'', g), (''url'', h)] ''url'' = Some h"
  "map_of [(''platform'', a), (''type'', b), (''query'', c), (''title'', d), (''views'', e),
           (''date'', f), (''video_id'', g), (''url'', h)] ''title'' = Some d"
  "map_of [(''platform'', a), (''type'', b), (''query'', c), (''title'', d), (''views'', e),
           (''date'', f), (''video_id'', g), (''url'', h)] ''views'' = Some e"
  "map_of [(''platform'', a), (''type'', b), (''query'', c), (''title'', d), (''views'', e),
           (''date'', f), (''video_id'', g), (''url'', h)] ''date'' = Some f"
  by simp_all

text \<open>
  C10, as the code has it: in a record of the YouTube scraper, when the title element
  has an \<open>href\<close>, \<open>video_id\<close> is the part of the \<open>href\<close> after its last \<open>=\<close> (the whole
  \<open>href\<close> when it has no \<open>=\<close>), and \<open>url\<close> is the watch address followed by that
  \<open>video_id\<close> when the \<open>video_id\<close> is not empty, \<open>N/A\<close> when it is empty; when the title
  element is absent or has no \<open>href\<close>, \<open>video_id\<close> is \<open>None\<close> and \<open>url\<close> is \<open>N/A\<close>.
\<close>

theorem youtube_video_id:
  assumes "youtube_item w query video = Inr r"
  shows "(\<forall>el href. select_one w video (selector ''youtube'' ''title'') = Inr (Some el)
              \<and> attrs w el ''href'' = Some href
            \<longrightarrow> map_of r ''video_id'' = Some (Str (after_last (CHR ''='') href))
                \<and> (CHR ''='' \<notin> set href \<longrightarrow> map_of r ''video_id'' = Some (Str href))
                \<and> map_of r ''url'' =
                    Some (Str (if after_last (CHR ''='') href = [] then ''N/A''
                               else ''https://www.youtube.com/watch?v='' @ after_last (CHR ''='') href)))
       \<and> (select_one w video (selector ''youtube'' ''title'') = Inr None
            \<or> (\<exists>el. select_one w video (selector ''youtube'' ''title'') = Inr (Some el)
                      \<and> attrs w el ''href'' = None)
            \<longrightarrow> map_of r ''video_id'' = Some PyNone \<and> map_of r ''url'' = Some (Str ''N/A''))"
  using assms
  unfolding youtube_item_def and_then_def Let_def
  by (auto split: sum.splits option.splits simp: map_of_youtube last_split after_last_absent
      simp del: map_of.simps)

lemma video_world_item:
  "youtube_item (video_world href) query (Suc 0) =
     Inr [(''platform'', Str ''youtube''), (''type'', Str ''video''), (''query'', Str query),
          (''title'', Str ''A video''), (''views'', Str ''N/A''), (''date'', Str ''N/A''),
          (''video_id'', Str (last (split (CHR ''='') href))),
          (''url'', Str (if last (split (CHR ''='') href) = [] then ''N/A''
                         else ''https://www.youtube.com/watch?v='' @ last (split (CHR ''='') href)))]"
proof -
  have st: "strip '' A video '' = ''A video''" by code_simp
  have d1: "selector ''youtube'' ''views'' \<noteq> selector ''youtube'' ''title''"
    and d2: "selector ''youtube'' ''date'' \<noteq> selector ''youtube'' ''title''"
    by code_simp+
  show ?thesis
    by (simp add: youtube_item_def video_world_def page_world_def select_one_def and_then_def
        text_or_def Let_def st d1 d2)
qed

theorem youtube_video_id_witness:
  "youtube_item (video_world ''/watch?v=abc123'') ''on sale'' 1 =
     Inr [(''platform'', Str ''youtube''), (''type'', Str ''video''), (''query'', Str ''on sale''),
          (''title'', Str ''A video''), (''views'', Str ''N/A''), (''date'', Str ''N/A''),
          (''video_id'', Str ''abc123''),
          (''url'', Str ''https://www.youtube.com/watch?v=abc123'')]
   \<and> select_one (video_world ''/watch?v=abc123'') 1 (selector ''youtube'' ''title'') = Inr (Some 2)
   \<and> attrs (video_world ''/watch?v=abc123'') 2 ''href'' = Some ''/watch?v=abc123''
   \<and> map_of [(''platform'', Str ''youtube''), (''type'', Str ''video''), (''query'', Str ''on sale''),
          (''title'', Str ''A video''), (''views'', Str ''N/A''), (''date'', Str ''N/A''),
          (''video_id'', Str ''abc123''),
          (''url'', Str ''https://www.youtube.com/watch?v=abc123'')] ''video_id''
       = Some (Str (after_last (CHR ''='') ''/watch?v=abc123''))"
proof -
  let ?w = "video_world ''/watch?v=abc123''"
  let ?r = "[(''platform'', Str ''youtube''), (''type'', Str ''video''), (''query'', Str ''on sale''),
          (''title'', Str ''A video''), (''views'', Str ''N/A''), (''date'', Str ''N/A''),
          (''video_id'', Str ''abc123''),
          (''url'', Str ''https://www.youtube.com/watch?v=abc123'')]"
  have sp: "last (split (CHR ''='') ''/watch?v=abc123'') = ''abc123''" by code_simp
  have item: "youtube_item ?w ''on sale'' 1 = Inr ?r"
    using video_world_item [of "''/watch?v=abc123''" "''on sale''"] by (simp add: sp)
  have t: "select_one ?w 1 (selector ''youtube'' ''title'') = Inr (Some 2)"
    by (simp add: select_one_def video_world_def page_world_def and_then_def)
  have h: "attrs ?w 2 ''href'' = Some ''/watch?v=abc123''"
    by (simp add: video_world_def page_world_def)
  from youtube_video_id [OF item] t h
  have "map_of ?r ''video_id'' = Some (Str (after_last (CHR ''='') ''/watch?v=abc123''))"
    by blast
  with item t h show ?thesis by blast
qed

text \<open>
  C10 as stated fails: a title element whose \<open>href\<close> ends with \<open>=\<close> has an \<open>href\<close>, and
  the record's \<open>url\<close> is \<open>N/A\<close>, not the watch address followed by the (empty)
  \<open>video_id\<close>.
\<close>

theorem youtube_video_id_counterexample:
  "select_one (video_world ''/watch?v='') 1 (selector ''youtube'' ''title'') = Inr (Some 2)
   \<and> attrs (video_world ''/watch?v='') 2 ''href'' = Some ''/watch?v=''
   \<and> youtube_item (video_world ''/watch?v='') ''on sale'' 1 =
     Inr [(''platform'', Str ''youtube''), (''type'', Str ''video''), (''query'', Str ''on sale''),
          (''title'', Str ''A video''), (''views'', Str ''N/A''), (''date'', Str ''N/A''),
          (''video_id'', Str []),
          (''url'', Str ''N/A'')]
   \<and> Str ''N/A'' \<noteq> Str (''https://www.youtube.com/watch?v='' @ [])"
proof -
  let ?w = "video_world ''/watch?v=''"
  have sp: "last (split (CHR ''='') ''/watch?v='') = []" by code_simp
  have item: "youtube_item ?w ''on sale'' 1 =
     Inr [(''platform'', Str ''youtube''), (''type'', Str ''video''), (''query'', Str ''on sale''),
          (''title'', Str ''A video''), (''views'', Str ''N/A''), (''date'', Str ''N/A''),
          (''video_id'', Str []),
          (''url'', Str ''N/A'')]"
    using video_world_item [of "''/watch?v=''" "''on sale''"] by (simp add: sp)
  have t: "select_one ?w 1 (selector ''youtube'' ''title'') = Inr (Some 2)"
    by (simp add: select_one_def video_world_def page_world_def and_then_def)
  have h: "attrs ?w 2 ''href'' = Some ''/watch?v=''"
    by (simp add: video_world_def page_world_def)
  show ?thesis using item t h by simp
qed

subsection \<open>Missing fields\<close>

text \<open>
  C6, as the code has it: a missing field neither drops the field nor discards the
  record. For each platform, whenever the lookups of a matched container return (and
  the text of each element that was found can be read), the record is emitted with every
  field of the platform, and a field whose selector matched nothing holds the default of
  that field: \<open>N/A\<close> for the name, price and rating of Amazon, the title of Reddit, the
  title, views and date of YouTube and the views of TikTok; \<open>0\<close> for the upvotes and the
  comments of Reddit. In particular an Amazon container with no rating element yields a
  record with rating \<open>N/A\<close>.
\<close>

theorem missing_field_sentinel:
  "(amazon_item w category c = Inr r \<longrightarrow>
      map fst r = [''platform'', ''type'', ''category'', ''name'', ''price'', ''rating'']
      \<and> (select_one w c (selector ''amazon'' ''product_name'') = Inr None
            \<longrightarrow> map_of r ''name'' = Some (Str ''N/A''))
      \<and> (select_one w c (selector ''amazon'' ''price'') = Inr None
            \<longrightarrow> map_of r ''price'' = Some (Str ''N/A''))
      \<and> (select_one w c (selector ''amazon'' ''rating'') = Inr None
            \<longrightarrow> map_of r ''rating'' = Some (Str ''N/A'')))
   \<and> (select_one w c (selector ''amazon'' ''product_name'') = Inr name_element
        \<and> select_one w c (selector ''amazon'' ''price'') = Inr price_element
        \<and> select_one w c (selector ''amazon'' ''rating'') = Inr None
        \<and> text_or w name_element ''N/A'' = Inr nm
        \<and> text_or w price_element ''N/A'' = Inr pr
      \<longrightarrow> amazon_item w category c =
            Inr [(''platform'', Str ''amazon''), (''type'', Str ''product''),
                 (''category'', Str category), (''name'', Str nm), (''price'', Str pr),
                 (''rating'', Str ''N/A'')])
   \<and> (reddit_item w subreddit c = Inr r \<longrightarrow>
      map fst r = [''platform'', ''type'', ''subreddit'', ''title'', ''upvotes'', ''comments'']
      \<and> (select_one w c (selector ''reddit'' ''title'') = Inr None
            \<longrightarrow> map_of r ''title'' = Some (Str ''N/A''))
      \<and> (select_one w c (selector ''reddit'' ''upvotes'') = Inr None
            \<longrightarrow> map_of r ''upvotes'' = Some (Str ''0''))
      \<and> (select_one w c (selector ''reddit'' ''comments'') = Inr None
            \<longrightarrow> map_of r ''comments'' = Some (Str ''0'')))
   \<and> (youtube_item w query c = Inr r \<longrightarrow>
      map fst r = [''platform'', ''type'', ''query'', ''title'', ''views'', ''date'',
                   ''video_id'', ''url'']
      \<and> (select_one w c (selector ''youtube'' ''title'') = Inr None
            \<longrightarrow> map_of r ''title'' = Some (Str ''N/A''))
      \<and> (select_one w c (selector ''youtube'' ''views'') = Inr None
            \<longrightarrow> map_of r ''views'' = Some (Str ''N/A''))
      \<and> (select_one w c (selector ''youtube'' ''date'') = Inr None
            \<longrightarrow> map_of r ''date'' = Some (Str ''N/A'')))
   \<and> (tiktok_item w base_url c = Inr r \<longrightarrow>
      map fst r = [''platform'', ''type'', ''name'', ''views'', ''url'']
      \<and> (find_next w c (selector ''tiktok'' ''views'') = Inr None
            \<longrightarrow> map_of r ''views'' = Some (Str ''N/A'')))
   \<and> (select_one w c (selector ''amazon'' ''product_name'') = Inr e1
        \<and> select_one w c (selector ''amazon'' ''price'') = Inr e2
        \<and> select_one w c (selector ''amazon'' ''rating'') = Inr e3
        \<and> (\<forall>el. e1 = Some el \<longrightarrow> node_text w el = Inr t1)
        \<and> (\<forall>el. e2 = Some el \<longrightarrow> node_text w el = Inr t2)
        \<and> (\<forall>el. e3 = Some el \<longrightarrow> node_text w el = Inr t3)
      \<longrightarrow> amazon_item w category c =
            Inr [(''platform'', Str ''amazon''), (''type'', Str ''product''),
                 (''category'', Str category),
                 (''name'', Str (if e1 = None then ''N/A'' else strip t1)),
                 (''price'', Str (if e2 = None then ''N/A'' else strip t2)),
                 (''rating'', Str (if e3 = None then ''N/A'' else strip t3))])
   \<and> (select_one w c (selector ''reddit'' ''title'') = Inr e1
        \<and> select_one w c (selector ''reddit'' ''upvotes'') = Inr e2
        \<and> select_one w c (selector ''reddit'' ''comments'') = Inr e3
        \<and> (\<forall>el. e1 = Some el \<longrightarrow> node_text w el = Inr t1)
        \<and> (\<forall>el. e2 = Some el \<longrightarrow> node_text w el = Inr t2)
        \<and> (\<forall>el. e3 = Some el \<longrightarrow> node_text w el = Inr t3)
      \<longrightarrow> reddit_item w subreddit c =
            Inr [(''platform'', Str ''reddit''), (''type'', Str ''post''),
                 (''subreddit'', Str subreddit),
                 (''title'', Str (if e1 = None then ''N/A'' else strip t1)),
                 (''upvotes'', Str (if e2 = None then ''0'' else strip t2)),
                 (''comments'', Str (if e3 = None then ''0'' else strip t3))])
   \<and> (select_one w c (selector ''youtube'' ''title'') = Inr e1
        \<and> select_one w c (selector ''youtube'' ''views'') = Inr e2
        \<and> select_one w c (selector ''youtube'' ''date'') = Inr e3
        \<and> (\<forall>el. e1 = Some el \<longrightarrow> node_text w el = Inr t1)
        \<and> (\<forall>el. e2 = Some el \<longrightarrow> node_text w el = Inr t2)
        \<and> (\<forall>el. e3 = Some el \<longrightarrow> node_text w el = Inr t3)
      \<longrightarrow> (\<exists>video_id url.
            youtube_item w query c =
            Inr [(''platform'', Str ''youtube''), (''type'', Str ''video''),
                 (''query'', Str query),
                 (''title'', Str (if e1 = None then ''N/A'' else strip t1)),
                 (''views'', Str (if e2 = None then ''N/A'' else strip t2)),
                 (''date'', Str (if e3 = None then ''N/A'' else strip t3)),
                 (''video_id'', video_id), (''url'', Str url)]))
   \<and> (node_text w c = Inr t1
        \<and> find_next w c (selector ''tiktok'' ''views'') = Inr e2
        \<and> (\<forall>el. e2 = Some el \<longrightarrow> node_text w el = Inr t2)
      \<longrightarrow> tiktok_item w base_url c =
            Inr [(''platform'', Str ''tiktok''), (''type'', Str ''hashtag''),
                 (''name'', Str (lstrip ''#'' (strip t1))),
                 (''views'', Str (if e2 = None then ''N/A'' else strip t2)),
                 (''url'', Str (base_url @ lstrip ''#'' (strip t1)))])"
proof -
  have a: "amazon_item w category c = Inr r \<longrightarrow>
      map fst r = [''platform'', ''type'', ''category'', ''name'', ''price'', ''rating'']
      \<and> (select_one w c (selector ''amazon'' ''product_name'') = Inr None
            \<longrightarrow> map_of r ''name'' = Some (Str ''N/A''))
      \<and> (select_one w c (selector ''amazon'' ''price'') = Inr None
            \<longrightarrow> map_of r ''price'' = Some (Str ''N/A''))
      \<and> (select_one w c (selector ''amazon'' ''rating'') = Inr None
            \<longrightarrow> map_of r ''rating'' = Some (Str ''N/A''))"
    unfolding amazon_item_def and_then_def
    by (auto split: sum.splits simp: text_or_def)
  have a2: "select_one w c (selector ''amazon'' ''product_name'') = Inr name_element
        \<and> select_one w c (selector ''amazon'' ''price'') = Inr price_element
        \<and> select_one w c (selector ''amazon'' ''rating'') = Inr None
        \<and> text_or w name_element ''N/A'' = Inr nm
        \<and> text_or w price_element ''N/A'' = Inr pr
      \<longrightarrow> amazon_item w category c =
            Inr [(''platform'', Str ''amazon''), (''type'', Str ''product''),
                 (''category'', Str category), (''name'', Str nm), (''price'', Str pr),
                 (''rating'', Str ''N/A'')]"
    by (simp add: amazon_item_def and_then_def text_or_def)
  have b: "reddit_item w subreddit c = Inr r \<longrightarrow>
      map fst r = [''platform'', ''type'', ''subreddit'', ''title'', ''upvotes'', ''comments'']
      \<and> (select_one w c (selector ''reddit'' ''title'') = Inr None
            \<longrightarrow> map_of r ''title'' = Some (Str ''N/A''))
      \<and> (select_one w c (selector ''reddit'' ''upvotes'') = Inr None
            \<longrightarrow> map_of r ''upvotes'' = Some (Str ''0''))
      \<and> (select_one w c (selector ''reddit'' ''comments'') = Inr None
            \<longrightarrow> map_of r ''comments'' = Some (Str ''0''))"
    unfolding reddit_item_def and_then_def
    by (auto split: sum.splits simp: text_or_def)
  have y: "youtube_item w query c = Inr r \<longrightarrow>
      map fst r = [''platform'', ''type'', ''query'', ''title'', ''views'', ''date'',
                   ''video_id'', ''url'']
      \<and> (select_one w c (selector ''youtube'' ''title'') = Inr None
            \<longrightarrow> map_of r ''title'' = Some (Str ''N/A''))
      \<and> (select_one w c (selector ''youtube'' ''views'') = Inr None
            \<longrightarrow> map_of r ''views'' = Some (Str ''N/A''))
      \<and> (select_one w c (selector ''youtube'' ''date'') = Inr None
            \<longrightarrow> map_of r ''date'' = Some (Str ''N/A''))"
    unfolding youtube_item_def and_then_def Let_def
    by (auto split: sum.splits simp: text_or_def)
  have t: "tiktok_item w base_url c = Inr r \<longrightarrow>
      map fst r = [''platform'', ''type'', ''name'', ''views'', ''url'']
      \<and> (find_next w c (selector ''tiktok'' ''views'') = Inr None
            \<longrightarrow> map_of r ''views'' = Some (Str ''N/A''))"
    unfolding tiktok_item_def and_then_def Let_def
    by (auto split: sum.splits simp: text_or_def)
  have ea: "select_one w c (selector ''amazon'' ''product_name'') = Inr e1
        \<and> select_one w c (selector ''amazon'' ''price'') = Inr e2
        \<and> select_one w c (selector ''amazon'' ''rating'') = Inr e3
        \<and> (\<forall>el. e1 = Some el \<longrightarrow> node_text w el = Inr t1)
        \<and> (\<forall>el. e2 = Some el \<longrightarrow> node_text w el = Inr t2)
        \<and> (\<forall>el. e3 = Some el \<longrightarrow> node_text w el = Inr t3)
      \<longrightarrow> amazon_item w category c =
            Inr [(''platform'', Str ''amazon''), (''type'', Str ''product''),
                 (''category'', Str category),
                 (''name'', Str (if e1 = None then ''N/A'' else strip t1)),
                 (''price'', Str (if e2 = None then ''N/A'' else strip t2)),
                 (''rating'', Str (if e3 = None then ''N/A'' else strip t3))]"
    by (cases e1; cases e2; cases e3)
       (simp_all add: amazon_item_def select_one_def and_then_def text_or_def)
  have er: "select_one w c (selector ''reddit'' ''title'') = Inr e1
        \<and> select_one w c (selector ''reddit'' ''upvotes'') = Inr e2
        \<and> select_one w c (selector ''reddit'' ''comments'') = Inr e3
        \<and> (\<forall>el. e1 = Some el \<longrightarrow> node_text w el = Inr t1)
        \<and> (\<forall>el. e2 = Some el \<longrightarrow> node_text w el = Inr t2)
        \<and> (\<forall>el. e3 = Some el \<longrightarrow> node_text w el = Inr t3)
      \<longrightarrow> reddit_item w subreddit c =
            Inr [(''platform'', Str ''reddit''), (''type'', Str ''post''),
                 (''subreddit'', Str subreddit),
                 (''title'', Str (if e1 = None then ''N/A'' else strip t1)),
                 (''upvotes'', Str (if e2 = None then ''0'' else strip t2)),
                 (''comments'', Str (if e3 = None then ''0'' else strip t3))]"
    by (cases e1; cases e2; cases e3)
       (simp_all add: reddit_item_def select_one_def and_then_def text_or_def)
  have ey: "select_one w c (selector ''youtube'' ''title'') = Inr e1
        \<and> select_one w c (selector ''youtube'' ''views'') = Inr e2
        \<and> select_one w c (selector ''youtube'' ''date'') = Inr e3
        \<and> (\<forall>el. e1 = Some el \<longrightarrow> node_text w el = Inr t1)
        \<and> (\<forall>el. e2 = Some el \<longrightarrow> node_text w el = Inr t2)
        \<and> (\<forall>el. e3 = Some el \<longrightarrow> node_text w el = Inr t3)
      \<longrightarrow> (\<exists>video_id url.
            youtube_item w query c =
            Inr [(''platform'', Str ''youtube''), (''type'', Str ''video''),
                 (''query'', Str query),
                 (''title'', Str (if e1 = None then ''N/A'' else strip t1)),
                 (''views'', Str (if e2 = None then ''N/A'' else strip t2)),
                 (''date'', Str (if e3 = None then ''N/A'' else strip t3)),
                 (''video_id'', video_id), (''url'', Str url)])"
    by (cases e1; cases e2; cases e3)
       (simp_all add: youtube_item_def select_one_def and_then_def text_or_def Let_def)
  have et: "node_text w c = Inr t1
        \<and> find_next w c (selector ''tiktok'' ''views'') = Inr e2
        \<and> (\<forall>el. e2 = Some el \<longrightarrow> node_text w el = Inr t2)
      \<longrightarrow> tiktok_item w base_url c =
            Inr [(''platform'', Str ''tiktok''), (''type'', Str ''hashtag''),
                 (''name'', Str (lstrip ''#'' (strip t1))),
                 (''views'', Str (if e2 = None then ''N/A'' else strip t2)),
                 (''url'', Str (base_url @ lstrip ''#'' (strip t1)))]"
    by (cases e2) (simp_all add: tiktok_item_def and_then_def text_or_def Let_def)
  show ?thesis by (intro conjI a a2 b y t ea er ey et)
qed

lemma fallback_world_leaf:
  "n \<noteq> 0 \<Longrightarrow> select fallback_world n css = Inr []"
  "node_text fallback_world n = Inr '' page ''"
  "find_next fallback_world n nm = Inr None"
  by (simp_all add: fallback_world_def page_world_def)

lemma fallback_world_none: "select_one fallback_world (Suc 0) css = Inr None"
  by (simp add: select_one_def and_then_def fallback_world_leaf)

lemma fallback_world_reddit:
  "reddit_item fallback_world ''deals'' (Suc 0) =
      Inr [(''platform'', Str ''reddit''), (''type'', Str ''post''), (''subreddit'', Str ''deals''),
           (''title'', Str ''N/A''), (''upvotes'', Str ''0''), (''comments'', Str ''0'')]"
  by (simp add: reddit_item_def fallback_world_none and_then_def text_or_def)

theorem missing_field_sentinel_witness:
  "amazon_item fallback_world ''toys'' 1 =
      Inr [(''platform'', Str ''amazon''), (''type'', Str ''product''), (''category'', Str ''toys''),
           (''name'', Str ''N/A''), (''price'', Str ''N/A''), (''rating'', Str ''N/A'')]
   \<and> select_one fallback_world 1 (selector ''amazon'' ''rating'') = Inr None
   \<and> map_of [(''platform'', Str ''amazon''), (''type'', Str ''product''), (''category'', Str ''toys''),
           (''name'', Str ''N/A''), (''price'', Str ''N/A''), (''rating'', Str ''N/A'')] ''rating''
       = Some (Str ''N/A'')"
proof -
  let ?r = "[(''platform'', Str ''amazon''), (''type'', Str ''product''), (''category'', Str ''toys''),
           (''name'', Str ''N/A''), (''price'', Str ''N/A''), (''rating'', Str ''N/A'')]"
  have dflt: "text_or fallback_world None ''N/A'' = Inr ''N/A''"
    by (simp add: text_or_def)
  note m = missing_field_sentinel [of fallback_world "''toys''" "Suc 0" ?r None None "''N/A''" "''N/A''"]
  from m have
    "select_one fallback_world (Suc 0) (selector ''amazon'' ''product_name'') = Inr None
        \<and> select_one fallback_world (Suc 0) (selector ''amazon'' ''price'') = Inr None
        \<and> select_one fallback_world (Suc 0) (selector ''amazon'' ''rating'') = Inr None
        \<and> text_or fallback_world None ''N/A'' = Inr ''N/A''
        \<and> text_or fallback_world None ''N/A'' = Inr ''N/A''
      \<longrightarrow> amazon_item fallback_world ''toys'' (Suc 0) = Inr ?r"
    by (rule conjunct1 [OF conjunct2])
  then have item: "amazon_item fallback_world ''toys'' (Suc 0) = Inr ?r"
    by (simp only: fallback_world_none dflt simp_thms)
  from m have "amazon_item fallback_world ''toys'' (Suc 0) = Inr ?r \<longrightarrow>
      map fst ?r = [''platform'', ''type'', ''category'', ''name'', ''price'', ''rating'']
      \<and> (select_one fallback_world (Suc 0) (selector ''amazon'' ''product_name'') = Inr None
            \<longrightarrow> map_of ?r ''name'' = Some (Str ''N/A''))
      \<and> (select_one fallback_world (Suc 0) (selector ''amazon'' ''price'') = Inr None
            \<longrightarrow> map_of ?r ''price'' = Some (Str ''N/A''))
      \<and> (select_one fallback_world (Suc 0) (selector ''amazon'' ''rating'') = Inr None
            \<longrightarrow> map_of ?r ''rating'' = Some (Str ''N/A''))"
    by (rule conjunct1)
  then have "map_of ?r ''rating'' = Some (Str ''N/A'')"
    using item fallback_world_none [of "selector ''amazon'' ''rating''"] by blast
  then show ?thesis
    using item fallback_world_none [of "selector ''amazon'' ''rating''"]
    by (simp only: One_nat_def simp_thms)
qed

text \<open>
  C6 as stated fails: a Reddit container with no upvotes element yields a record whose
  \<open>upvotes\<close> field is \<open>0\<close>, not \<open>N/A\<close>.
\<close>

theorem missing_field_sentinel_counterexample:
  "select_one fallback_world 1 (selector ''reddit'' ''upvotes'') = Inr None
   \<and> reddit_item fallback_world ''deals'' 1 =
      Inr [(''platform'', Str ''reddit''), (''type'', Str ''post''), (''subreddit'', Str ''deals''),
           (''title'', Str ''N/A''), (''upvotes'', Str ''0''), (''comments'', Str ''0'')]
   \<and> map_of [(''platform'', Str ''reddit''), (''type'', Str ''post''), (''subreddit'', Str ''deals''),
           (''title'', Str ''N/A''), (''upvotes'', Str ''0''), (''comments'', Str ''0'')] ''upvotes''
       = Some (Str ''0'')
   \<and> Str ''0'' \<noteq> Str ''N/A''"
proof -
  have "map_of [(''platform'', Str ''reddit''), (''type'', Str ''post''), (''subreddit'', Str ''deals''),
           (''title'', Str ''N/A''), (''upvotes'', Str ''0''), (''comments'', Str ''0'')] ''upvotes''
       = Some (Str ''0'')"
    by simp
  moreover have "Str ''0'' \<noteq> Str ''N/A''" by simp
  ultimately show ?thesis
    using fallback_world_none [of "selector ''reddit'' ''upvotes''"] fallback_world_reddit
    by (simp only: One_nat_def simp_thms)
qed

subsection \<open>The batch\<close>

text \<open>
  What the batch does when it has a pool: with at least one task and a positive
  \<open>max_workers\<close> it returns the records of the futures that hold a result, in the order
  of submission; a future that holds an exception adds nothing. Otherwise the pool cannot
  be built and the exception leaves \<open>scrape_all_platforms\<close>.
\<close>

lemma collect_results_concat:
  "collect_results futures all_data =
     all_data @ concat (map (\<lambda>future. case future of Inr result \<Rightarrow> result | Inl e \<Rightarrow> []) futures)"
  by (induction futures arbitrary: all_data) (auto split: sum.splits)

lemma scrape_all_platforms_tasks:
  "scrape_all_platforms eng w max_workers st =
     (if min max_workers (int (length (scraping_tasks eng))) \<le> 0 then (Inl ValueError, st)
      else (case submit_all eng w (scraping_tasks eng) st of
              (futures, st1) \<Rightarrow> (Inr (collect_results futures []), st1)))"
  by (simp add: scrape_all_platforms_def scraping_tasks_def Let_def)

lemma scrape_all_platforms_completes:
  assumes "0 < max_workers" and "scraping_tasks eng \<noteq> []"
  shows "\<exists>futures st1.
           submit_all eng w (scraping_tasks eng) st = (futures, st1)
           \<and> scrape_all_platforms eng w max_workers st =
               (Inr (concat (map (\<lambda>future. case future of Inr result \<Rightarrow> result | Inl e \<Rightarrow> [])
                               futures)), st1)"
proof -
  obtain futures st1 where s: "submit_all eng w (scraping_tasks eng) st = (futures, st1)"
    by (cases "submit_all eng w (scraping_tasks eng) st")
  have "0 < int (length (scraping_tasks eng))" using assms(2) by simp
  with assms(1) have "0 < min max_workers (int (length (scraping_tasks eng)))"
    by (simp only: min_less_iff_conj)
  then have "\<not> min max_workers (int (length (scraping_tasks eng))) \<le> 0" by linarith
  then show ?thesis
    using s by (simp add: scrape_all_platforms_tasks collect_results_concat)
qed

lemma scrape_all_platforms_raises:
  assumes "max_workers \<le> 0 \<or> scraping_tasks eng = []"
  shows "scrape_all_platforms eng w max_workers st = (Inl ValueError, st)"
  using assms by (auto simp: scrape_all_platforms_tasks)

text \<open>
  C3 at the configuration the engine falls back to when no platform is configured
  (\<open>config = {}\<close>, so \<open>platforms_config = []\<close>) and the default \<open>max_workers\<close>: there is no
  task, the pool is asked for \<open>min(5, 0) = 0\<close> workers, and \<open>scrape_all_platforms\<close> raises
  \<open>ValueError\<close> instead of returning the empty list of records.
\<close>

theorem scrape_all_platforms_no_tasks:
  "scrape_all_platforms (ScraperEngine None None None None) w 5 st = (Inl ValueError, st)"
  by (simp add: scrape_all_platforms_def ScraperEngine_def)

theorem scrape_all_platforms_no_tasks_witness:
  "scrape_all_platforms (ScraperEngine None None None None) dead_world 5
      (initial_state (ProxyManager False False []))
     = (Inl ValueError, initial_state (ProxyManager False False []))"
  by (rule scrape_all_platforms_no_tasks)


end
